theory Spec2Isabelle
  imports Complex_Main "HOL-Library.Word" "HOL-Library.AList"
begin

text \<open>
  A model of the component \<open>EcosoulLanding\<close> (file \<open>src/EcosoulLanding.jsx\<close>): its state
  cells, its handlers and its timer callbacks, as functions on an explicit state that also
  holds the part of the browser the handlers act on (the local storage, the timers, the
  object URLs, the speech queue, the alerts). Every reading of \<open>Math.random()\<close> and of
  \<open>Date.now()\<close> is an argument of the handler that makes it.
\<close>

section \<open>JavaScript strings\<close>

text \<open>
  A JavaScript string is a sequence of UTF-16 code units; \<open>length\<close>, \<open>slice\<close> and
  \<open>trim\<close> count and cut code units. String literals of the source that are plain ASCII
  are written with \<open>js\<close>; the other characters of the source (the ellipsis U+2026, the
  em dash U+2014, the double quote) are written as their code unit.
\<close>

type_synonym jsstring = "16 word list"

definition js :: "string \<Rightarrow> jsstring" where
  "js s = map of_char s"

text \<open>
  \<open>String.prototype.trim\<close> removes the code units of WhiteSpace and LineTerminator
  (ECMAScript 12.2, 12.3) from both ends.
\<close>

definition isWhiteSpace :: "16 word \<Rightarrow> bool" where
  "isWhiteSpace c =
     (c = 0x09 \<or> c = 0x0A \<or> c = 0x0B \<or> c = 0x0C \<or> c = 0x0D \<or> c = 0x20 \<or> c = 0xA0
      \<or> c = 0x1680 \<or> (0x2000 \<le> c \<and> c \<le> 0x200A) \<or> c = 0x2028 \<or> c = 0x2029
      \<or> c = 0x202F \<or> c = 0x205F \<or> c = 0x3000 \<or> c = 0xFEFF)"

definition trim :: "jsstring \<Rightarrow> jsstring" where
  "trim s = rev (dropWhile isWhiteSpace (rev (dropWhile isWhiteSpace s)))"

text \<open>
  \<open>s.slice(b, e)\<close>: a negative index counts from the end, both indices are clamped to
  the string, and an empty range gives the empty string.
\<close>

definition slice :: "int \<Rightarrow> int \<Rightarrow> jsstring \<Rightarrow> jsstring" where
  "slice b e s =
     (let len = int (length s);
          lo = (if b < 0 then max (len + b) 0 else min b len);
          hi = (if e < 0 then max (len + e) 0 else min e len)
      in take (nat (hi - lo)) (drop (nat lo) s))"

text \<open>
  \<open>function truncate(s, n) { return s.length > n ? s.slice(0, n - 1) + "\<dots>" : s; }\<close>
  where the appended string is the single code unit U+2026.
\<close>

definition ellipsis :: "16 word" where
  "ellipsis = 0x2026"

definition truncate_js :: "jsstring \<Rightarrow> int \<Rightarrow> jsstring" where
  "truncate_js s n = (if int (length s) > n then slice 0 (n - 1) s @ [ellipsis] else s)"

text \<open>
  \<open>function uid(prefix = "id") { return `${prefix}_${Math.random().toString(36).slice(2, 9)}`; }\<close>
  The random draw enters as \<open>rnd36\<close>, the text of \<open>Math.random().toString(36)\<close>
  (such as \<open>0.4fzyo82mvyr\<close>): the conversion of a double to base 36 is left to the platform.
\<close>

definition uid :: "jsstring \<Rightarrow> jsstring \<Rightarrow> jsstring" where
  "uid prefix rnd36 = prefix @ js ''_'' @ slice 2 9 rnd36"

section \<open>Data model\<close>

text \<open>
  The records of the three collections, with the fields the source gives them:
  \<open>{ id, name, size, url, createdAt }\<close> for an uploaded clip,
  \<open>{ id, title, body, createdAt }\<close> for a letter and \<open>{ id, from, text, time }\<close>
  for a chat message. The greeting carries the number \<open>1\<close> as its id, every other
  message a string made by \<open>uid\<close>.
\<close>

record upload =
  v_id :: jsstring
  v_name :: jsstring
  v_size :: nat
  v_url :: jsstring
  v_createdAt :: nat

record journal_entry =
  j_id :: jsstring
  j_title :: jsstring
  j_body :: jsstring
  j_createdAt :: nat

datatype sender = You | Soul

datatype message_id = NumId nat | StrId jsstring

record chat_message =
  m_id :: message_id
  m_from :: sender
  m_text :: jsstring
  m_time :: nat

text \<open>A file handed over by the file picker: its name and its size in bytes.\<close>

record audio_file =
  f_name :: jsstring
  f_size :: nat

text \<open>
  What the platform contributes to one iteration of \<open>files.map\<close> in
  \<open>handleVoiceUpload\<close>: the file, the object URL that \<open>URL.createObjectURL\<close>
  returns for it, the random draw of \<open>uid\<close> and the reading of \<open>Date.now()\<close>.
\<close>

record upload_draw =
  d_file :: audio_file
  d_url :: jsstring
  d_rnd36 :: jsstring
  d_now :: nat

section \<open>JSON text\<close>

text \<open>
  The values of \<open>JSON.parse\<close> and \<open>JSON.stringify\<close>. A number keeps its lexeme
  (its value is a double, which is not interpreted here); the members of an object are
  kept in the order of the text.
\<close>

datatype json =
    JNull
  | JBool bool
  | JNumber jsstring
  | JString jsstring
  | JArray "json list"
  | JObject "(jsstring \<times> json) list"

datatype js_error = SyntaxError | TypeError

subsection \<open>\<open>JSON.stringify\<close>\<close>

definition hex_digit :: "nat \<Rightarrow> 16 word" where
  "hex_digit d = (if d < 10 then of_nat (48 + d) else of_nat (87 + d))"

definition unicode_escape :: "16 word \<Rightarrow> jsstring" where
  "unicode_escape c =
     (let n = unat c
      in [0x5C, 0x75, hex_digit (n div 4096), hex_digit (n div 256 mod 16),
          hex_digit (n div 16 mod 16), hex_digit (n mod 16)])"

definition is_high_surrogate :: "16 word \<Rightarrow> bool" where
  "is_high_surrogate c = (0xD800 \<le> c \<and> c \<le> 0xDBFF)"

definition is_low_surrogate :: "16 word \<Rightarrow> bool" where
  "is_low_surrogate c = (0xDC00 \<le> c \<and> c \<le> 0xDFFF)"

definition quote_unit :: "16 word \<Rightarrow> jsstring" where
  "quote_unit c =
     (if c = 0x08 then [0x5C, 0x62]
      else if c = 0x09 then [0x5C, 0x74]
      else if c = 0x0A then [0x5C, 0x6E]
      else if c = 0x0C then [0x5C, 0x66]
      else if c = 0x0D then [0x5C, 0x72]
      else if c = 0x22 then [0x5C, 0x22]
      else if c = 0x5C then [0x5C, 0x5C]
      else if c < 0x20 then unicode_escape c
      else [c])"

text \<open>
  The body of QuoteJSONString: a surrogate pair is copied, a lone surrogate is written
  as a \<open>\u\<close> escape, every other code unit goes through \<open>quote_unit\<close>.
\<close>

fun quote_units :: "jsstring \<Rightarrow> jsstring" where
  "quote_units [] = []"
| "quote_units [c] =
     (if is_high_surrogate c \<or> is_low_surrogate c then unicode_escape c else quote_unit c)"
| "quote_units (c # d # cs) =
     (if is_high_surrogate c \<and> is_low_surrogate d then c # d # quote_units cs
      else if is_high_surrogate c \<or> is_low_surrogate c
        then unicode_escape c @ quote_units (d # cs)
      else quote_unit c @ quote_units (d # cs))"

definition quoteJSONString :: "jsstring \<Rightarrow> jsstring" where
  "quoteJSONString s = 0x22 # quote_units s @ [0x22]"

fun join_comma :: "jsstring list \<Rightarrow> jsstring" where
  "join_comma [] = []"
| "join_comma [x] = x"
| "join_comma (x # y # ys) = x @ 0x2C # join_comma (y # ys)"

fun JSON_stringify :: "json \<Rightarrow> jsstring" where
  "JSON_stringify JNull = js ''null''"
| "JSON_stringify (JBool b) = (if b then js ''true'' else js ''false'')"
| "JSON_stringify (JNumber n) = n"
| "JSON_stringify (JString s) = quoteJSONString s"
| "JSON_stringify (JArray vs) = 0x5B # join_comma (map JSON_stringify vs) @ [0x5D]"
| "JSON_stringify (JObject ms) =
     0x7B # join_comma (map (\<lambda>(k, v). quoteJSONString k @ 0x3A # JSON_stringify v) ms)
       @ [0x7D]"

text \<open>
  The decimal digits of a non-negative integer, as \<open>JSON.stringify\<close> writes the sizes
  and the timestamps (integers below \<open>10^21\<close>, which it writes without an exponent).
\<close>

fun decimal :: "nat \<Rightarrow> jsstring" where
  "decimal n =
     (if n < 10 then [of_nat (48 + n)] else decimal (n div 10) @ [of_nat (48 + n mod 10)])"

declare decimal.simps [simp del]

definition json_of_upload :: "upload \<Rightarrow> json" where
  "json_of_upload v =
     JObject [(js ''id'', JString (v_id v)), (js ''name'', JString (v_name v)),
              (js ''size'', JNumber (decimal (v_size v))), (js ''url'', JString (v_url v)),
              (js ''createdAt'', JNumber (decimal (v_createdAt v)))]"

definition json_of_journal_entry :: "journal_entry \<Rightarrow> json" where
  "json_of_journal_entry j =
     JObject [(js ''id'', JString (j_id j)), (js ''title'', JString (j_title j)),
              (js ''body'', JString (j_body j)),
              (js ''createdAt'', JNumber (decimal (j_createdAt j)))]"

subsection \<open>\<open>JSON.parse\<close>\<close>

text \<open>
  A recursive-descent reader of the JSON grammar (ECMA-404), the platform function behind
  \<open>JSON.parse\<close>: \<open>Inl SyntaxError\<close> stands for the exception it raises. Nesting is
  bounded by the fuel of \<open>parse_value\<close>, the number of elements of one array or object by
  the fuel of \<open>parse_elements\<close> and \<open>parse_members\<close>; both start at the length of the
  text, and every level and every element uses up at least one code unit.
\<close>

definition isJSONWhiteSpace :: "16 word \<Rightarrow> bool" where
  "isJSONWhiteSpace c = (c = 0x09 \<or> c = 0x0A \<or> c = 0x0D \<or> c = 0x20)"

definition skip_ws :: "jsstring \<Rightarrow> jsstring" where
  "skip_ws cs = dropWhile isJSONWhiteSpace cs"

definition is_digit :: "16 word \<Rightarrow> bool" where
  "is_digit c = (0x30 \<le> c \<and> c \<le> 0x39)"

definition hex_value :: "16 word \<Rightarrow> nat option" where
  "hex_value c =
     (if 0x30 \<le> c \<and> c \<le> 0x39 then Some (unat c - 48)
      else if 0x41 \<le> c \<and> c \<le> 0x46 then Some (unat c - 55)
      else if 0x61 \<le> c \<and> c \<le> 0x66 then Some (unat c - 87)
      else None)"

definition simple_escape :: "16 word \<Rightarrow> 16 word option" where
  "simple_escape e =
     (if e = 0x22 then Some 0x22 else if e = 0x5C then Some 0x5C
      else if e = 0x2F then Some 0x2F else if e = 0x62 then Some 0x08
      else if e = 0x66 then Some 0x0C else if e = 0x6E then Some 0x0A
      else if e = 0x72 then Some 0x0D else if e = 0x74 then Some 0x09 else None)"

definition hex4 :: "jsstring \<Rightarrow> 16 word option" where
  "hex4 hs =
     (case map hex_value hs of
        [Some a, Some b, Some c, Some d] \<Rightarrow> Some (of_nat (a * 4096 + b * 256 + c * 16 + d))
      | _ \<Rightarrow> None)"

fun parse_string :: "jsstring \<Rightarrow> (jsstring \<times> jsstring) option" where
  "parse_string [] = None"
| "parse_string (c # cs) =
     (if c = 0x22 then Some ([], cs)
      else if c = 0x5C then
        (case cs of
           [] \<Rightarrow> None
         | e # es \<Rightarrow>
             if e = 0x75 then
               (case hex4 (take 4 es) of
                  None \<Rightarrow> None
                | Some u \<Rightarrow> map_option (\<lambda>(s, r). (u # s, r)) (parse_string (drop 4 es)))
             else
               (case simple_escape e of
                  None \<Rightarrow> None
                | Some u \<Rightarrow> map_option (\<lambda>(s, r). (u # s, r)) (parse_string es)))
      else if c < 0x20 then None
      else map_option (\<lambda>(s, r). (c # s, r)) (parse_string cs))"

definition digits :: "jsstring \<Rightarrow> jsstring \<times> jsstring" where
  "digits cs = (takeWhile is_digit cs, dropWhile is_digit cs)"

definition parse_sign :: "16 word list \<Rightarrow> jsstring \<Rightarrow> jsstring \<times> jsstring" where
  "parse_sign signs cs =
     (case cs of [] \<Rightarrow> ([], cs) | c # r \<Rightarrow> if c \<in> set signs then ([c], r) else ([], cs))"

definition parse_int_part :: "jsstring \<Rightarrow> (jsstring \<times> jsstring) option" where
  "parse_int_part cs =
     (let (ds, r) = digits cs
      in if ds = [] \<or> (hd ds = 0x30 \<and> 1 < length ds) then None else Some (ds, r))"

definition parse_frac :: "jsstring \<Rightarrow> (jsstring \<times> jsstring) option" where
  "parse_frac cs =
     (case cs of
        [] \<Rightarrow> Some ([], cs)
      | c # r \<Rightarrow>
          if c = 0x2E then
            (let (ds, r') = digits r in if ds = [] then None else Some (c # ds, r'))
          else Some ([], cs))"

definition parse_exp :: "jsstring \<Rightarrow> (jsstring \<times> jsstring) option" where
  "parse_exp cs =
     (case cs of
        [] \<Rightarrow> Some ([], cs)
      | c # r \<Rightarrow>
          if c = 0x65 \<or> c = 0x45 then
            (let (sg, r1) = parse_sign [0x2B, 0x2D] r; (ds, r') = digits r1
             in if ds = [] then None else Some (c # sg @ ds, r'))
          else Some ([], cs))"

definition parse_number :: "jsstring \<Rightarrow> (json \<times> jsstring) option" where
  "parse_number cs =
     (let (sg, r0) = parse_sign [0x2D] cs
      in case parse_int_part r0 of
           None \<Rightarrow> None
         | Some (i, r1) \<Rightarrow>
             (case parse_frac r1 of
                None \<Rightarrow> None
              | Some (f, r2) \<Rightarrow>
                  (case parse_exp r2 of
                     None \<Rightarrow> None
                   | Some (e, r3) \<Rightarrow> Some (JNumber (sg @ i @ f @ e), r3))))"

definition parse_literal :: "jsstring \<Rightarrow> (json \<times> jsstring) option" where
  "parse_literal cs =
     (if take 4 cs = js ''null'' then Some (JNull, drop 4 cs)
      else if take 4 cs = js ''true'' then Some (JBool True, drop 4 cs)
      else if take 5 cs = js ''false'' then Some (JBool False, drop 5 cs)
      else None)"

primrec parse_elements ::
  "(jsstring \<Rightarrow> (json \<times> jsstring) option) \<Rightarrow> nat \<Rightarrow> jsstring \<Rightarrow> (json list \<times> jsstring) option"
where
  "parse_elements pv 0 cs = None"
| "parse_elements pv (Suc k) cs =
     (case pv cs of
        None \<Rightarrow> None
      | Some (v, r) \<Rightarrow>
          (case skip_ws r of
             [] \<Rightarrow> None
           | d # r' \<Rightarrow>
               if d = 0x2C then map_option (\<lambda>(vs, t). (v # vs, t)) (parse_elements pv k r')
               else if d = 0x5D then Some ([v], r')
               else None))"

primrec parse_members ::
  "(jsstring \<Rightarrow> (json \<times> jsstring) option) \<Rightarrow> nat \<Rightarrow> jsstring
     \<Rightarrow> ((jsstring \<times> json) list \<times> jsstring) option"
where
  "parse_members pv 0 cs = None"
| "parse_members pv (Suc k) cs =
     (case skip_ws cs of
        [] \<Rightarrow> None
      | q # r \<Rightarrow>
          if q \<noteq> 0x22 then None
          else
            (case parse_string r of
               None \<Rightarrow> None
             | Some (key, r1) \<Rightarrow>
                 (case skip_ws r1 of
                    [] \<Rightarrow> None
                  | col # r2 \<Rightarrow>
                      if col \<noteq> 0x3A then None
                      else
                        (case pv r2 of
                           None \<Rightarrow> None
                         | Some (v, r3) \<Rightarrow>
                             (case skip_ws r3 of
                                [] \<Rightarrow> None
                              | d # r4 \<Rightarrow>
                                  if d = 0x2C then
                                    map_option (\<lambda>(ms, t). ((key, v) # ms, t))
                                      (parse_members pv k r4)
                                  else if d = 0x7D then Some ([(key, v)], r4)
                                  else None)))))"

primrec parse_value :: "nat \<Rightarrow> jsstring \<Rightarrow> (json \<times> jsstring) option" where
  "parse_value 0 cs = None"
| "parse_value (Suc n) cs =
     (case skip_ws cs of
        [] \<Rightarrow> None
      | c # r \<Rightarrow>
          if c = 0x5B then
            (case skip_ws r of
               [] \<Rightarrow> None
             | d # r' \<Rightarrow>
                 if d = 0x5D then Some (JArray [], r')
                 else map_option (\<lambda>(vs, t). (JArray vs, t))
                        (parse_elements (parse_value n) (length r) r))
          else if c = 0x7B then
            (case skip_ws r of
               [] \<Rightarrow> None
             | d # r' \<Rightarrow>
                 if d = 0x7D then Some (JObject [], r')
                 else map_option (\<lambda>(ms, t). (JObject ms, t))
                        (parse_members (parse_value n) (length r) r))
          else if c = 0x22 then map_option (\<lambda>(s, t). (JString s, t)) (parse_string r)
          else if c = 0x2D \<or> is_digit c then parse_number (c # r)
          else parse_literal (c # r))"

definition JSON_parse :: "jsstring \<Rightarrow> js_error + json" where
  "JSON_parse text =
     (case parse_value (Suc (length text)) text of
        None \<Rightarrow> Inl SyntaxError
      | Some (v, r) \<Rightarrow> if skip_ws r = [] then Inr v else Inl SyntaxError)"

section \<open>The persistent store\<close>

type_synonym storage = "jsstring \<rightharpoonup> jsstring"

definition voice_uploads_key :: jsstring where
  "voice_uploads_key = js ''ecosoul_voice_uploads''"

definition journal_key :: jsstring where
  "journal_key = js ''ecosoul_journal''"

definition try_catch :: "js_error + 'a \<Rightarrow> (js_error \<Rightarrow> js_error + 'a) \<Rightarrow> js_error + 'a" where
  "try_catch body handler = (case body of Inl e \<Rightarrow> handler e | Inr v \<Rightarrow> Inr v)"

text \<open>
  \<open>localStorage.getItem(key) || "[]"\<close>: \<open>getItem\<close> gives \<open>null\<close> for a key that is not
  stored, and \<open>||\<close> replaces \<open>null\<close> and the empty string, the two falsy outcomes.
\<close>

definition getItem_or_default :: "storage \<Rightarrow> jsstring \<Rightarrow> jsstring" where
  "getItem_or_default store key =
     (case store key of None \<Rightarrow> js ''[]'' | Some t \<Rightarrow> if t = [] then js ''[]'' else t)"

text \<open>
  The initializer of \<open>voiceUploads\<close> and of \<open>journalEntries\<close>, the same code for the two keys:
  \<open>try { return JSON.parse(localStorage.getItem(key) || "[]"); } catch (e) { return []; }\<close>
  The parser is a parameter, so that what is proved of the initializer holds for every
  behaviour of \<open>JSON.parse\<close>; \<open>JSON_parse\<close> above is the instance used on concrete texts.
\<close>

definition load_collection ::
  "(jsstring \<Rightarrow> js_error + json) \<Rightarrow> storage \<Rightarrow> jsstring \<Rightarrow> js_error + json" where
  "load_collection parse store key =
     try_catch (parse (getItem_or_default store key)) (\<lambda>e. Inr (JArray []))"

section \<open>The controller\<close>

text \<open>
  A timer of the page: a repeating one made by \<open>setInterval\<close>, which carries the
  variable \<open>cycle\<close> of the closure of \<open>startHealing\<close>, or a one-shot one made by
  \<open>setTimeout\<close>, which carries its delay and the \<open>chatInput\<close> its closure has captured.
\<close>

datatype timer = Interval nat | Timeout rat jsstring

text \<open>
  The state of the component \<open>EcosoulLanding\<close> (its \<open>useState\<close> and \<open>useRef\<close> cells,
  and the two cells of \<open>JournalForm\<close>), followed by the part of the browser it acts on.
  \<open>cleanupUploads\<close> is the \<open>voiceUploads\<close> that the cleanup of the effect with the
  dependency list \<open>[]\<close> has in its closure: the value of the first render.
  \<open>healingProgress\<close> is a JavaScript number; the model keeps the exact quotient where the
  source rounds to a double, and agrees with it on \<open>0\<close> and \<open>100\<close>.
\<close>

record controller =
  voiceUploads :: "upload list"
  journalEntries :: "journal_entry list"
  chatMessages :: "chat_message list"
  chatInput :: jsstring
  storyPrompt :: jsstring
  isHealing :: bool
  healingProgress :: rat
  healingTimerRef :: "nat option"
  formTitle :: jsstring
  formBody :: jsstring
  cleanupUploads :: "upload list"
  localStorage :: storage
  timers :: "(nat \<times> timer) list"
  nextTimerId :: nat
  speechAvailable :: bool
  spoken :: "jsstring list"
  createdURLs :: "jsstring list"
  revokedURLs :: "jsstring list"
  alerts :: "jsstring list"

subsection \<open>Persistence effects\<close>

text \<open>
  \<open>useEffect(() => { localStorage.setItem(key, JSON.stringify(collection)); }, [collection])\<close>
  runs after the first render and after every update of the collection.
\<close>

definition persistVoiceUploads :: "controller \<Rightarrow> controller" where
  "persistVoiceUploads s =
     s\<lparr>localStorage := (localStorage s)
         (voice_uploads_key \<mapsto> JSON_stringify (JArray (map json_of_upload (voiceUploads s))))\<rparr>"

definition persistJournal :: "controller \<Rightarrow> controller" where
  "persistJournal s =
     s\<lparr>localStorage := (localStorage s)
         (journal_key \<mapsto> JSON_stringify (JArray (map json_of_journal_entry (journalEntries s))))\<rparr>"

definition setVoiceUploads :: "(upload list \<Rightarrow> upload list) \<Rightarrow> controller \<Rightarrow> controller" where
  "setVoiceUploads f s = persistVoiceUploads (s\<lparr>voiceUploads := f (voiceUploads s)\<rparr>)"

definition setJournalEntries ::
  "(journal_entry list \<Rightarrow> journal_entry list) \<Rightarrow> controller \<Rightarrow> controller" where
  "setJournalEntries f s = persistJournal (s\<lparr>journalEntries := f (journalEntries s)\<rparr>)"

subsection \<open>Initial state\<close>

definition greeting :: jsstring where
  "greeting =
     js ''I can't wait to hear about your day '' @ [0x2014] @ js '' tell me something good.''"

text \<open>
  The first render. \<open>loadedUploads\<close> and \<open>loadedJournal\<close> are the collections the two
  initializers have returned, \<open>now\<close> the reading of \<open>Date.now()\<close>, \<open>store\<close> the content
  of \<open>localStorage\<close> and \<open>speech\<close> tells whether \<open>window\<close> has \<open>speechSynthesis\<close>.
\<close>

definition mount ::
  "storage \<Rightarrow> bool \<Rightarrow> upload list \<Rightarrow> journal_entry list \<Rightarrow> nat \<Rightarrow> controller" where
  "mount store speech loadedUploads loadedJournal now =
     persistJournal (persistVoiceUploads
       \<lparr>voiceUploads = loadedUploads,
        journalEntries = loadedJournal,
        chatMessages = [\<lparr>m_id = NumId 1, m_from = Soul, m_text = greeting, m_time = now\<rparr>],
        chatInput = [],
        storyPrompt = js ''Tell the story of when we first met.'',
        isHealing = False,
        healingProgress = 0,
        healingTimerRef = None,
        formTitle = [],
        formBody = [],
        cleanupUploads = loadedUploads,
        localStorage = store,
        timers = [],
        nextTimerId = 1,
        speechAvailable = speech,
        spoken = [],
        createdURLs = [],
        revokedURLs = [],
        alerts = []\<rparr>)"

subsection \<open>Voice uploads\<close>

definition uploadItem :: "upload_draw \<Rightarrow> upload" where
  "uploadItem d =
     \<lparr>v_id = uid (js ''voice'') (d_rnd36 d), v_name = f_name (d_file d),
      v_size = f_size (d_file d), v_url = d_url d, v_createdAt = d_now d\<rparr>"

definition handleVoiceUpload :: "upload_draw list \<Rightarrow> controller \<Rightarrow> controller" where
  "handleVoiceUpload draws s =
     setVoiceUploads (\<lambda>old. map uploadItem draws @ old)
       (s\<lparr>createdURLs := createdURLs s @ map d_url draws\<rparr>)"

definition removeUpload :: "jsstring \<Rightarrow> controller \<Rightarrow> controller" where
  "removeUpload i s = setVoiceUploads (filter (\<lambda>v. v_id v \<noteq> i)) s"

text \<open>
  The cleanup that runs when the component is unmounted:
  \<open>voiceUploads.forEach((v) => { try { URL.revokeObjectURL(v.url); } catch (e) {} })\<close>
  over the \<open>voiceUploads\<close> of its closure.
\<close>

definition unmount :: "controller \<Rightarrow> controller" where
  "unmount s = s\<lparr>revokedURLs := revokedURLs s @ map v_url (cleanupUploads s)\<rparr>"

text \<open>The object URLs made in this session that no call has revoked.\<close>

definition outstandingURLs :: "controller \<Rightarrow> jsstring list" where
  "outstandingURLs s = filter (\<lambda>u. u \<notin> set (revokedURLs s)) (createdURLs s)"

subsection \<open>Speech\<close>

text \<open>
  \<open>speakText\<close> returns at once when \<open>window\<close> has no \<open>speechSynthesis\<close>; otherwise it
  cancels the running utterance and speaks the text. The model records the texts spoken.
\<close>

definition speakText :: "jsstring \<Rightarrow> controller \<Rightarrow> controller" where
  "speakText txt s = (if \<not> speechAvailable s then s else s\<lparr>spoken := spoken s @ [txt]\<rparr>)"

definition alert :: "jsstring \<Rightarrow> controller \<Rightarrow> controller" where
  "alert txt s = s\<lparr>alerts := alerts s @ [txt]\<rparr>"

subsection \<open>Chat\<close>

text \<open>
  The four templates of \<open>generateSoulReply\<close>; only the first uses its argument.
\<close>

definition templates :: "(jsstring \<Rightarrow> jsstring) list" where
  "templates =
     [\<lambda>u. js ''I remember when you told me: '' @ [0x22] @ truncate_js u 80 @ [0x22]
            @ js ''. That made me smile.'',
      \<lambda>u. js ''Hearing about this warms me. Tell me more '' @ [0x2014]
            @ js '' what happened next?'',
      \<lambda>u. js ''I'm here with you. Breathe with me. Imagine us sitting quietly, listening together.'',
      \<lambda>u. js ''You always find the little joys. I'm proud of you for noticing them.'']"

text \<open>
  \<open>const pick = templates[Math.floor(Math.random() * templates.length)]; return pick(userText);\<close>
  with \<open>random\<close> the outcome of \<open>Math.random()\<close>, a double and hence a rational (the
  product with the length \<open>4\<close> is exact). An index outside the array gives \<open>undefined\<close>,
  and calling it raises a TypeError.
\<close>

definition generateSoulReply :: "rat \<Rightarrow> jsstring \<Rightarrow> js_error + jsstring" where
  "generateSoulReply random userText =
     (let i = \<lfloor>random * of_nat (length templates)\<rfloor>
      in if 0 \<le> i \<and> i < int (length templates) then Inr ((templates ! nat i) userText)
         else Inl TypeError)"

definition setTimeout :: "rat \<Rightarrow> jsstring \<Rightarrow> controller \<Rightarrow> controller" where
  "setTimeout delay captured s =
     s\<lparr>timers := (nextTimerId s, Timeout delay captured) # timers s,
       nextTimerId := Suc (nextTimerId s)\<rparr>"

text \<open>
  \<open>sendChat\<close>, with the draw of \<open>uid\<close>, the draw of the delay and the clock as
  arguments. The callback keeps the \<open>chatInput\<close> of the render that sent the message.
\<close>

definition sendChat :: "jsstring \<Rightarrow> rat \<Rightarrow> nat \<Rightarrow> controller \<Rightarrow> controller" where
  "sendChat rnd36 random now s =
     (if trim (chatInput s) = [] then s
      else
        let userMsg = \<lparr>m_id = StrId (uid (js ''m'') rnd36), m_from = You,
                       m_text = trim (chatInput s), m_time = now\<rparr>
        in setTimeout (850 + random * 650) (chatInput s)
             (s\<lparr>chatMessages := chatMessages s @ [userMsg], chatInput := []\<rparr>))"

text \<open>
  The callback of the timeout \<open>t\<close>, when it fires: a timer that is not pending does not
  fire. \<open>random\<close> is the draw of \<open>generateSoulReply\<close>, \<open>rnd36\<close> the draw of \<open>uid\<close>.
\<close>

definition chatReply :: "nat \<Rightarrow> rat \<Rightarrow> jsstring \<Rightarrow> nat \<Rightarrow> controller \<Rightarrow> controller" where
  "chatReply t random rnd36 now s =
     (case map_of (timers s) t of
        Some (Timeout delay captured) \<Rightarrow>
          (let s0 = s\<lparr>timers := AList.delete t (timers s)\<rparr>
           in case generateSoulReply random (trim captured) of
                Inl e \<Rightarrow> s0
              | Inr soulReply \<Rightarrow>
                  speakText soulReply
                    (s0\<lparr>chatMessages := chatMessages s0 @
                          [\<lparr>m_id = StrId (uid (js ''m'') rnd36), m_from = Soul,
                            m_text = soulReply, m_time = now\<rparr>]\<rparr>))
      | _ \<Rightarrow> s)"

subsection \<open>Story mode\<close>

text \<open>
  \<open>createStory\<close> lower-cases the prompt with \<open>String.prototype.toLowerCase\<close>, a
  function of the Unicode tables of the platform: it is the parameter \<open>lower\<close>.
\<close>

definition createStory :: "(jsstring \<Rightarrow> jsstring) \<Rightarrow> jsstring \<Rightarrow> jsstring" where
  "createStory lower prompt =
     js ''Once, when the two of you wandered into the late-light, '' @ lower prompt
       @ js '' '' @ [0x2014]
       @ js '' and everything felt bright. You laughed, and the world listened.''"

definition generateAndSpeak ::
  "(jsstring \<Rightarrow> jsstring) \<Rightarrow> jsstring \<Rightarrow> nat \<Rightarrow> controller \<Rightarrow> controller" where
  "generateAndSpeak lower rnd36 now s =
     (let story = createStory lower (storyPrompt s)
      in speakText story
           (s\<lparr>chatMessages := chatMessages s @
                 [\<lparr>m_id = StrId (uid (js ''m'') rnd36), m_from = Soul, m_text = story,
                   m_time = now\<rparr>]\<rparr>))"

definition playStory :: "(jsstring \<Rightarrow> jsstring) \<Rightarrow> controller \<Rightarrow> controller" where
  "playStory lower s = speakText (createStory lower (storyPrompt s)) s"

subsection \<open>Journal\<close>

definition addJournalEntry :: "jsstring \<Rightarrow> nat \<Rightarrow> jsstring \<Rightarrow> jsstring \<Rightarrow> controller \<Rightarrow> controller" where
  "addJournalEntry rnd36 now title body s =
     setJournalEntries
       (\<lambda>old. \<lparr>j_id = uid (js ''j'') rnd36, j_title = title, j_body = body,
                j_createdAt = now\<rparr> # old) s"

definition deleteJournalEntry :: "jsstring \<Rightarrow> controller \<Rightarrow> controller" where
  "deleteJournalEntry i s = setJournalEntries (filter (\<lambda>e. j_id e \<noteq> i)) s"

text \<open>\<open>save\<close> of \<open>JournalForm\<close>, with \<open>onSave\<close> bound to \<open>addJournalEntry\<close>.\<close>

definition save :: "jsstring \<Rightarrow> nat \<Rightarrow> controller \<Rightarrow> controller" where
  "save rnd36 now s =
     (if trim (formTitle s) = [] \<or> trim (formBody s) = []
      then alert (js ''Please add a title and some words.'') s
      else (addJournalEntry rnd36 now (trim (formTitle s)) (trim (formBody s)) s)
             \<lparr>formTitle := [], formBody := []\<rparr>)"

subsection \<open>Healing mode\<close>

definition total :: nat where
  "total = 6"

definition breathing_cue :: jsstring where
  "breathing_cue = js ''Inhale... 1, 2, 3, 4. Exhale... 1, 2, 3, 4, 5, 6.''"

text \<open>
  \<open>clearInterval(healingTimerRef.current)\<close>: the reference holds \<open>null\<close> before the first
  start, and clearing \<open>null\<close> or a timer that is gone does nothing.
\<close>

definition clearInterval :: "nat option \<Rightarrow> controller \<Rightarrow> controller" where
  "clearInterval r s =
     (case r of None \<Rightarrow> s | Some t \<Rightarrow> s\<lparr>timers := AList.delete t (timers s)\<rparr>)"

definition startHealing :: "controller \<Rightarrow> controller" where
  "startHealing s =
     (let s1 = s\<lparr>isHealing := True, healingProgress := 0\<rparr>;
          t = nextTimerId s1
      in s1\<lparr>timers := (t, Interval 0) # timers s1, nextTimerId := Suc t,
            healingTimerRef := Some t\<rparr>)"

text \<open>
  The callback of the interval \<open>t\<close>, when it fires; \<open>cycle\<close> is the variable of the call
  of \<open>startHealing\<close> that made the interval. An interval that has been cleared does not fire.
\<close>

definition healingTick :: "nat \<Rightarrow> controller \<Rightarrow> controller" where
  "healingTick t s =
     (case map_of (timers s) t of
        Some (Interval c) \<Rightarrow>
          (let cycle = c + 1;
               s1 = s\<lparr>timers := AList.update t (Interval cycle) (timers s),
                       healingProgress := (of_nat cycle / of_nat total) * 100\<rparr>;
               s2 = speakText breathing_cue s1
           in if cycle \<ge> total
              then (clearInterval (healingTimerRef s2) s2)
                     \<lparr>isHealing := False, healingProgress := 100\<rparr>
              else s2)
      | _ \<Rightarrow> s)"

definition stopHealing :: "controller \<Rightarrow> controller" where
  "stopHealing s =
     (clearInterval (healingTimerRef s) s)\<lparr>isHealing := False, healingProgress := 0\<rparr>"

text \<open>The repeating schedules that are active, by their timer ids.\<close>

primrec is_interval :: "timer \<Rightarrow> bool" where
  "is_interval (Interval c) = True"
| "is_interval (Timeout delay captured) = False"

definition intervalIds :: "(nat \<times> timer) list \<Rightarrow> nat list" where
  "intervalIds xs = map fst (filter (\<lambda>p. is_interval (snd p)) xs)"

definition activeIntervals :: "controller \<Rightarrow> nat list" where
  "activeIntervals s = intervalIds (timers s)"

subsection \<open>Events of the page\<close>

text \<open>
  What can happen to the mounted component: the handlers its controls are bound to, and
  the two kinds of timer callbacks. The Start button is rendered with
  \<open>disabled={isHealing}\<close>, so a click reaches \<open>startHealing\<close> only when \<open>isHealing\<close> is
  false; every other control is always enabled.
\<close>

datatype event =
    Upload "upload_draw list"
  | DeleteClip jsstring
  | CreateVoiceModel
  | Privacy
  | TypeChat jsstring
  | Send jsstring rat nat
  | ClearChat
  | ReplyFires nat rat jsstring nat
  | TypeStoryPrompt jsstring
  | GenerateAndSpeak jsstring nat
  | PlayOnly
  | ClickStart
  | ClickStop
  | IntervalFires nat
  | TypeTitle jsstring
  | TypeBody jsstring
  | SaveLetter jsstring nat
  | ClearForm
  | ReadLetter nat
  | DeleteLetter jsstring

definition clickStart :: "controller \<Rightarrow> controller" where
  "clickStart s = (if isHealing s then s else startHealing s)"

fun fire :: "(jsstring \<Rightarrow> jsstring) \<Rightarrow> event \<Rightarrow> controller \<Rightarrow> controller" where
  "fire lower (Upload draws) s = handleVoiceUpload draws s"
| "fire lower (DeleteClip i) s = removeUpload i s"
| "fire lower CreateVoiceModel s =
     alert (js ''Demo-only: In a production app you'd send the uploaded audio files to your secure server for model training. See the code comments.'') s"
| "fire lower Privacy s = alert (js ''Copied demo privacy-policy URL'') s"
| "fire lower (TypeChat txt) s = s\<lparr>chatInput := txt\<rparr>"
| "fire lower (Send rnd36 random now) s = sendChat rnd36 random now s"
| "fire lower ClearChat s = s\<lparr>chatMessages := []\<rparr>"
| "fire lower (ReplyFires t random rnd36 now) s = chatReply t random rnd36 now s"
| "fire lower (TypeStoryPrompt txt) s = s\<lparr>storyPrompt := txt\<rparr>"
| "fire lower (GenerateAndSpeak rnd36 now) s = generateAndSpeak lower rnd36 now s"
| "fire lower PlayOnly s = playStory lower s"
| "fire lower ClickStart s = clickStart s"
| "fire lower ClickStop s = stopHealing s"
| "fire lower (IntervalFires t) s = healingTick t s"
| "fire lower (TypeTitle txt) s = s\<lparr>formTitle := txt\<rparr>"
| "fire lower (TypeBody txt) s = s\<lparr>formBody := txt\<rparr>"
| "fire lower (SaveLetter rnd36 now) s = save rnd36 now s"
| "fire lower ClearForm s = s\<lparr>formTitle := [], formBody := []\<rparr>"
| "fire lower (ReadLetter n) s =
     (if n < length (journalEntries s) then speakText (j_body (journalEntries s ! n)) s else s)"
| "fire lower (DeleteLetter i) s = deleteJournalEntry i s"

fun run :: "(jsstring \<Rightarrow> jsstring) \<Rightarrow> event list \<Rightarrow> controller \<Rightarrow> controller" where
  "run lower [] s = s"
| "run lower (e # es) s = run lower es (fire lower e s)"

section \<open>Predicates used in the proofs\<close>

text \<open>
  The interval \<open>t\<close> is the one the reference points to, it has counted \<open>c\<close> cycles and
  the session is running.
\<close>

definition ticking :: "nat \<Rightarrow> nat \<Rightarrow> controller \<Rightarrow> bool" where
  "ticking t c s \<longleftrightarrow>
     map_of (timers s) t = Some (Interval c) \<and> healingTimerRef s = Some t \<and> isHealing s"

text \<open>
  At most one repeating schedule is active, and when one is, the session is running and
  the reference points to it.
\<close>

definition one_schedule :: "controller \<Rightarrow> bool" where
  "one_schedule s \<longleftrightarrow>
     activeIntervals s = []
     \<or> (isHealing s \<and> (\<exists>t. healingTimerRef s = Some t \<and> activeIntervals s = [t]))"

text \<open>
  No two records of a collection share an id; and the condition on an event that the ids
  it draws are new to the collection they go to.
\<close>

definition unique_ids :: "controller \<Rightarrow> bool" where
  "unique_ids s \<longleftrightarrow>
     distinct (map v_id (voiceUploads s)) \<and> distinct (map j_id (journalEntries s))
     \<and> distinct (map m_id (chatMessages s))"

fun fresh_draws :: "event \<Rightarrow> controller \<Rightarrow> bool" where
  "fresh_draws (Upload draws) s \<longleftrightarrow>
     distinct (map (\<lambda>d. uid (js ''voice'') (d_rnd36 d)) draws)
     \<and> (\<forall>d \<in> set draws. uid (js ''voice'') (d_rnd36 d) \<notin> v_id ` set (voiceUploads s))"
| "fresh_draws (Send rnd36 random now) s \<longleftrightarrow>
     StrId (uid (js ''m'') rnd36) \<notin> m_id ` set (chatMessages s)"
| "fresh_draws (ReplyFires t random rnd36 now) s \<longleftrightarrow>
     StrId (uid (js ''m'') rnd36) \<notin> m_id ` set (chatMessages s)"
| "fresh_draws (GenerateAndSpeak rnd36 now) s \<longleftrightarrow>
     StrId (uid (js ''m'') rnd36) \<notin> m_id ` set (chatMessages s)"
| "fresh_draws (SaveLetter rnd36 now) s \<longleftrightarrow>
     uid (js ''j'') rnd36 \<notin> j_id ` set (journalEntries s)"
| "fresh_draws e s \<longleftrightarrow> True"

text \<open>
  The draws of \<open>uid\<close> that an event carries, by the collection the id goes to, and the
  part of a draw that \<open>uid\<close> keeps: \<open>slice(2, 9)\<close>, seven digits at most.
\<close>

definition kept_digits :: "jsstring \<Rightarrow> jsstring" where
  "kept_digits rnd36 = slice 2 9 rnd36"

fun voice_draws :: "event \<Rightarrow> jsstring list" where
  "voice_draws (Upload draws) = map d_rnd36 draws"
| "voice_draws e = []"

fun journal_draws :: "event \<Rightarrow> jsstring list" where
  "journal_draws (SaveLetter rnd36 now) = [rnd36]"
| "journal_draws e = []"

fun chat_draws :: "event \<Rightarrow> jsstring list" where
  "chat_draws (Send rnd36 random now) = [rnd36]"
| "chat_draws (ReplyFires t random rnd36 now) = [rnd36]"
| "chat_draws (GenerateAndSpeak rnd36 now) = [rnd36]"
| "chat_draws e = []"

text \<open>
  The draws differ pairwise in the digits that are kept, and none gives an id of \<open>loaded\<close>.
\<close>

definition distinct_draws :: "jsstring \<Rightarrow> jsstring list \<Rightarrow> jsstring list \<Rightarrow> bool" where
  "distinct_draws prefix draws loaded \<longleftrightarrow>
     distinct (map kept_digits draws) \<and> (\<forall>r \<in> set draws. uid prefix r \<notin> set loaded)"

text \<open>
  The same of the draws that the events still to come carry, against the ids the state holds.
\<close>

definition draws_ahead :: "event list \<Rightarrow> controller \<Rightarrow> bool" where
  "draws_ahead es s \<longleftrightarrow>
     distinct_draws (js ''voice'') (concat (map voice_draws es)) (map v_id (voiceUploads s))
     \<and> distinct_draws (js ''j'') (concat (map journal_draws es)) (map j_id (journalEntries s))
     \<and> distinct (map kept_digits (concat (map chat_draws es)))
     \<and> (\<forall>r \<in> set (concat (map chat_draws es)).
          StrId (uid (js ''m'') r) \<notin> m_id ` set (chatMessages s))"

section \<open>Sample sessions\<close>

text \<open>
  Concrete states and inputs, on which the statements below are evaluated. The store is
  empty at the start, the lower-casing function plays no part and is the identity.
\<close>

definition clip :: upload_draw where
  "clip = \<lparr>d_file = \<lparr>f_name = js ''a.mp3'', f_size = 3\<rparr>, d_url = js ''blob:a'',
           d_rnd36 = js ''0.4fzyo82mvyr'', d_now = 5\<rparr>"

definition two_letters :: controller where
  "two_letters =
     run (\<lambda>u. u)
       [TypeTitle (js ''a''), TypeBody (js ''b''), SaveLetter (js ''0.4fzyo82mvyr'') 1,
        TypeTitle (js ''c''), TypeBody (js ''d''), SaveLetter (js ''0.4fzyo82k1x9'') 2]
       (mount Map.empty True [] [] 0)"

definition old_letter :: journal_entry where
  "old_letter = \<lparr>j_id = js ''j_0k3x9ab'', j_title = js ''Old'', j_body = js ''Kept'',
                 j_createdAt = 1\<rparr>"

definition clip2 :: upload_draw where
  "clip2 = \<lparr>d_file = \<lparr>f_name = js ''b.wav'', f_size = 4\<rparr>, d_url = js ''blob:b'',
            d_rnd36 = js ''0.9k2'', d_now = 5\<rparr>"

definition busy_session :: "event list" where
  "busy_session =
     [Upload [clip, clip2],
      TypeTitle (js ''a''), TypeBody (js ''b''), SaveLetter (js ''0.4fzyo82mvyr'') 2,
      TypeTitle (js ''c''), TypeBody (js ''d''), SaveLetter (js ''0.9k2'') 3,
      TypeChat (js '' hello ''), Send (js ''0.4fzyo82mvyr'') (1 / 2) 7,
      ReplyFires 1 (1 / 2) (js ''0.9k2'') 9]"

definition hi_without_body :: controller where
  "hi_without_body = fire (\<lambda>u. u) (TypeTitle (js ''Hi'')) (mount Map.empty True [] [] 0)"

definition hi_with_body :: controller where
  "hi_with_body = fire (\<lambda>u. u) (TypeBody (js '' Dear you  '')) hi_without_body"

definition hello_typed :: controller where
  "hello_typed = fire (\<lambda>u. u) (TypeChat (js '' hello '')) (mount Map.empty True [] [] 0)"

definition hello_sent :: controller where
  "hello_sent = sendChat (js ''0.4fzyo82mvyr'') (1 / 2) 7 hello_typed"

section \<open>Healing mode: one run of the timer\<close>

lemma ticking_startHealing: "ticking (nextTimerId s) 0 (startHealing s)"
  by (simp add: ticking_def startHealing_def Let_def)

lemma ticking_step:
  assumes "ticking t c s" and "Suc c < total"
  shows "ticking t (Suc c) (healingTick t s)"
  using assms
  by (simp add: ticking_def healingTick_def Let_def speakText_def update_conv)

lemma ticking_funpow:
  "ticking t 0 s \<Longrightarrow> k < total \<Longrightarrow> ticking t k ((healingTick t ^^ k) s)"
proof (induction k)
  case 0
  then show ?case by simp
next
  case (Suc k)
  then have "ticking t k ((healingTick t ^^ k) s)" by simp
  with Suc.prems(2) show ?case by (simp add: ticking_step)
qed

lemma not_key_delete: "t \<notin> fst ` set (AList.delete t xs)"
  by (auto simp: AList.delete_eq)

lemma activeIntervals_subset: "set (activeIntervals s) \<subseteq> fst ` set (timers s)"
  by (auto simp: activeIntervals_def intervalIds_def)

lemma ticking_last:
  assumes "ticking t c s" and "Suc c = total"
  shows "healingProgress (healingTick t s) = 100 \<and> \<not> isHealing (healingTick t s)
         \<and> t \<notin> fst ` set (timers (healingTick t s))"
  using assms not_key_delete [of t "AList.update t (Interval total) (timers s)"]
  by (simp add: ticking_def healingTick_def Let_def speakText_def clearInterval_def)

lemma ticking_stop:
  assumes "ticking t c s"
  shows "healingProgress (stopHealing s) = 0 \<and> \<not> isHealing (stopHealing s)
         \<and> t \<notin> fst ` set (timers (stopHealing s))"
  using assms not_key_delete [of t "timers s"]
  by (simp add: ticking_def stopHealing_def clearInterval_def)

lemma ticking_active: "ticking t c s \<Longrightarrow> t \<in> set (activeIntervals s)"
  by (force simp: ticking_def activeIntervals_def intervalIds_def dest: map_of_SomeD)

text \<open>
  Claim C3. After \<open>startHealing\<close>, six ticks of the interval it has made leave the progress
  at exactly 100, the session inactive and the interval cancelled. Before the sixth tick the
  session is still running on that interval, and \<open>stopHealing\<close> then cancels the interval,
  marks the session inactive and sets the progress to exactly 0.
\<close>

theorem healing_completes_after_six_ticks:
  "(let done = (healingTick (nextTimerId s) ^^ 6) (startHealing s)
    in healingProgress done = 100 \<and> \<not> isHealing done
       \<and> nextTimerId s \<notin> set (activeIntervals done))
   \<and> (\<forall>k<6. let running = (healingTick (nextTimerId s) ^^ k) (startHealing s);
                 stopped = stopHealing running
             in isHealing running \<and> nextTimerId s \<in> set (activeIntervals running)
                \<and> healingProgress stopped = 0 \<and> \<not> isHealing stopped
                \<and> nextTimerId s \<notin> set (activeIntervals stopped))"
proof -
  let ?t = "nextTimerId s"
  have run: "ticking ?t k ((healingTick ?t ^^ k) (startHealing s))" if "k < 6" for k
    using that ticking_funpow [OF ticking_startHealing, of k s] by (simp add: total_def)
  have "(healingTick ?t ^^ 6) (startHealing s)
        = healingTick ?t ((healingTick ?t ^^ 5) (startHealing s))"
    by (simp add: eval_nat_numeral)
  moreover have "ticking ?t 5 ((healingTick ?t ^^ 5) (startHealing s))"
    using run [of 5] by simp
  ultimately have fin: "healingProgress ((healingTick ?t ^^ 6) (startHealing s)) = 100
      \<and> \<not> isHealing ((healingTick ?t ^^ 6) (startHealing s))
      \<and> ?t \<notin> fst ` set (timers ((healingTick ?t ^^ 6) (startHealing s)))"
    using ticking_last [of ?t 5] by (simp add: total_def)
  have stop: "isHealing ((healingTick ?t ^^ k) (startHealing s))
      \<and> ?t \<in> set (activeIntervals ((healingTick ?t ^^ k) (startHealing s)))
      \<and> healingProgress (stopHealing ((healingTick ?t ^^ k) (startHealing s))) = 0
      \<and> \<not> isHealing (stopHealing ((healingTick ?t ^^ k) (startHealing s)))
      \<and> ?t \<notin> set (activeIntervals (stopHealing ((healingTick ?t ^^ k) (startHealing s))))"
    if "k < 6" for k
  proof -
    have r: "ticking ?t k ((healingTick ?t ^^ k) (startHealing s))"
      using run [OF that] .
    have "isHealing ((healingTick ?t ^^ k) (startHealing s))"
      using r by (simp add: ticking_def)
    with ticking_stop [OF r] ticking_active [OF r]
      activeIntervals_subset [of "stopHealing ((healingTick ?t ^^ k) (startHealing s))"]
    show ?thesis by blast
  qed
  from fin stop activeIntervals_subset [of "(healingTick ?t ^^ 6) (startHealing s)"]
  show ?thesis unfolding Let_def by blast
qed

theorem healing_witness:
  "(3::nat) < 6
   \<and> (let running = (healingTick 1 ^^ 3) (startHealing (mount Map.empty True [] [] 0));
          stopped = stopHealing running
      in isHealing running \<and> 1 \<in> set (activeIntervals running)
         \<and> healingProgress stopped = 0 \<and> \<not> isHealing stopped
         \<and> 1 \<notin> set (activeIntervals stopped))"
proof -
  have n: "nextTimerId (mount Map.empty True [] [] 0) = 1"
    by (simp add: mount_def persistJournal_def persistVoiceUploads_def)
  have "(3::nat) < 6" by simp
  with healing_completes_after_six_ticks [of "mount Map.empty True [] [] 0"] n
  show ?thesis by (simp add: Let_def)
qed

section \<open>Healing mode: the number of schedules\<close>

lemma intervalIds_Nil: "intervalIds [] = []"
  by (simp add: intervalIds_def)

lemma intervalIds_Cons:
  "intervalIds ((t, k) # xs) = (if is_interval k then t # intervalIds xs else intervalIds xs)"
  by (simp add: intervalIds_def)

lemma intervalIds_delete: "intervalIds (AList.delete t xs) = filter (\<lambda>x. x \<noteq> t) (intervalIds xs)"
  by (induction xs) (auto simp: intervalIds_def)

lemma intervalIds_update:
  "map_of xs t = Some (Interval c) \<Longrightarrow> intervalIds (AList.update t (Interval c') xs) = intervalIds xs"
  by (induction xs) (auto simp: intervalIds_def)

lemma intervalIds_member: "map_of xs t = Some (Interval c) \<Longrightarrow> t \<in> set (intervalIds xs)"
  by (induction xs) (auto simp: intervalIds_def split: if_splits)

lemma one_schedule_mount: "one_schedule (mount store speech ups jrn now)"
  by (simp add: one_schedule_def activeIntervals_def intervalIds_Nil mount_def persistJournal_def
        persistVoiceUploads_def)

lemma one_schedule_clickStart: "one_schedule s \<Longrightarrow> one_schedule (clickStart s)"
  by (auto simp: one_schedule_def clickStart_def startHealing_def Let_def activeIntervals_def
        intervalIds_Cons)

lemma one_schedule_stopHealing: "one_schedule s \<Longrightarrow> one_schedule (stopHealing s)"
  by (auto simp: one_schedule_def stopHealing_def clearInterval_def activeIntervals_def
        intervalIds_delete split: option.splits)

lemma one_schedule_healingTick:
  assumes "one_schedule s"
  shows "one_schedule (healingTick t s)"
proof (cases "map_of (timers s) t")
  case None
  with assms show ?thesis by (simp add: healingTick_def)
next
  case (Some k)
  show ?thesis
  proof (cases k)
    case (Timeout d u)
    with Some assms show ?thesis by (simp add: healingTick_def)
  next
    case (Interval c)
    with Some have m: "map_of (timers s) t = Some (Interval c)" by simp
    from intervalIds_member [OF m] have "activeIntervals s \<noteq> []"
      by (auto simp: activeIntervals_def)
    with assms obtain r where r: "isHealing s" "healingTimerRef s = Some r" "activeIntervals s = [r]"
      by (auto simp: one_schedule_def)
    show ?thesis
      using m r intervalIds_update [OF m, of "Suc c"]
      by (auto simp: one_schedule_def healingTick_def Let_def speakText_def clearInterval_def
            activeIntervals_def intervalIds_delete)
  qed
qed

lemma one_schedule_chatReply: "one_schedule s \<Longrightarrow> one_schedule (chatReply t random rnd36 now s)"
  by (auto simp: one_schedule_def chatReply_def Let_def speakText_def activeIntervals_def
        intervalIds_delete split: option.splits timer.splits sum.splits)

lemma one_schedule_sendChat: "one_schedule s \<Longrightarrow> one_schedule (sendChat rnd36 random now s)"
  by (auto simp: one_schedule_def sendChat_def setTimeout_def Let_def activeIntervals_def
        intervalIds_Cons)

lemma one_schedule_fire: "one_schedule s \<Longrightarrow> one_schedule (fire lower e s)"
proof (cases e)
  case ClickStart then show "one_schedule s \<Longrightarrow> ?thesis" by (simp add: one_schedule_clickStart)
next
  case ClickStop then show "one_schedule s \<Longrightarrow> ?thesis" by (simp add: one_schedule_stopHealing)
next
  case (IntervalFires t) then show "one_schedule s \<Longrightarrow> ?thesis" by (simp add: one_schedule_healingTick)
next
  case (ReplyFires t r u n) then show "one_schedule s \<Longrightarrow> ?thesis" by (simp add: one_schedule_chatReply)
next
  case (Send u r n) then show "one_schedule s \<Longrightarrow> ?thesis" by (simp add: one_schedule_sendChat)
qed (simp_all add: one_schedule_def activeIntervals_def handleVoiceUpload_def removeUpload_def
      setVoiceUploads_def persistVoiceUploads_def alert_def generateAndSpeak_def playStory_def
      speakText_def Let_def save_def addJournalEntry_def deleteJournalEntry_def setJournalEntries_def
      persistJournal_def)

lemma one_schedule_run: "one_schedule s \<Longrightarrow> one_schedule (run lower es s)"
  by (induction es arbitrary: s) (simp_all add: one_schedule_fire)

text \<open>
  Claim C1. \<open>startHealing\<close> is bound to the Start button alone, which is rendered with
  \<open>disabled={isHealing}\<close>: started while a session is running, it changes nothing and so
  makes no second schedule, and whatever the events of the page, at most one repeating
  schedule is active.
\<close>

theorem gated_start_keeps_one_schedule:
  "(isHealing s \<longrightarrow> clickStart s = s)
   \<and> length (activeIntervals (run lower es (mount store speech ups jrn now))) \<le> 1"
proof -
  have "one_schedule (run lower es (mount store speech ups jrn now))"
    by (rule one_schedule_run) (rule one_schedule_mount)
  then have "length (activeIntervals (run lower es (mount store speech ups jrn now))) \<le> 1"
    by (auto simp: one_schedule_def)
  then show ?thesis by (simp add: clickStart_def)
qed

theorem gated_start_witness:
  "isHealing (startHealing (mount Map.empty True [] [] 0))
   \<and> clickStart (startHealing (mount Map.empty True [] [] 0))
       = startHealing (mount Map.empty True [] [] 0)
   \<and> length (activeIntervals
        (run (\<lambda>u. u) [ClickStart, ClickStart, IntervalFires 1] (mount Map.empty True [] [] 0))) \<le> 1"
proof -
  have h: "isHealing (startHealing (mount Map.empty True [] [] 0))"
    by (simp add: startHealing_def Let_def)
  from h gated_start_keeps_one_schedule
    [of "startHealing (mount Map.empty True [] [] 0)" "\<lambda>u. u"
        "[ClickStart, ClickStart, IntervalFires 1]" Map.empty True "[]" "[]" 0]
  show ?thesis by simp
qed

section \<open>Strings on concrete inputs\<close>

lemma uid_ex: "uid (js ''voice'') (js ''0.4fzyo82mvyr'') = js ''voice_4fzyo82''"
  by (simp add: uid_def slice_def js_def)

lemma uid_j1: "uid (js ''j'') (js ''0.4fzyo82mvyr'') = js ''j_4fzyo82''"
  by (simp add: uid_def slice_def js_def)
lemma uid_j2: "uid (js ''j'') (js ''0.4fzyo82k1x9'') = js ''j_4fzyo82''"
  by (simp add: uid_def slice_def js_def)
lemma trim_letters: "trim (js ''a'') = js ''a''" "trim (js ''b'') = js ''b''"
  "trim (js ''c'') = js ''c''" "trim (js ''d'') = js ''d''"
  by (simp_all add: trim_def isWhiteSpace_def js_def)

lemma trim_Hi: "trim (js ''Hi'') = js ''Hi''"
  by (simp add: trim_def isWhiteSpace_def js_def)
lemma trim_sp: "trim (js '' Dear you  '') = js ''Dear you''"
  by (simp add: trim_def isWhiteSpace_def js_def)
lemma trim_ws: "trim (js ''   '') = []"
  by (simp add: trim_def isWhiteSpace_def js_def)

lemma trim_empty: "trim [] = []"
  by (simp add: trim_def)

lemma trim_hello: "trim (js '' hello '') = js ''hello''"
  by (simp add: trim_def isWhiteSpace_def js_def)

lemmas json_eval = JSON_parse_def js_def skip_ws_def isJSONWhiteSpace_def is_digit_def parse_literal_def

lemma parse_null: "JSON_parse (js ''null'') = Inr JNull"
  by (simp add: json_eval)
lemma parse_empty: "JSON_parse (js ''[]'') = Inr (JArray [])"
  by (simp add: json_eval)
lemma parse_bad: "JSON_parse (js ''[{'') = Inl SyntaxError"
  by (simp add: json_eval)

text \<open>
  The two JSON functions on the stored copy of a journal with one letter: the text that
  \<open>JSON_stringify\<close> writes, and \<open>JSON_parse\<close> reading it back.
\<close>

lemma decimal_9: "decimal 9 = js ''9''"
  by (simp add: decimal.simps js_def)

lemma stored_letter_text:
  "JSON_stringify (JArray [json_of_journal_entry
      \<lparr>j_id = js ''j_4fzyo82'', j_title = js ''Hi'', j_body = js ''Dear you'', j_createdAt = 9\<rparr>])
   = [0x5B, 0x7B] @ [0x22] @ js ''id'' @ [0x22, 0x3A, 0x22] @ js ''j_4fzyo82'' @ [0x22, 0x2C, 0x22]
     @ js ''title'' @ [0x22, 0x3A, 0x22] @ js ''Hi'' @ [0x22, 0x2C, 0x22]
     @ js ''body'' @ [0x22, 0x3A, 0x22] @ js ''Dear you'' @ [0x22, 0x2C, 0x22]
     @ js ''createdAt'' @ [0x22, 0x3A] @ js ''9'' @ [0x7D, 0x5D]"
  by (simp add: json_of_journal_entry_def decimal_9 quoteJSONString_def quote_unit_def
        is_high_surrogate_def is_low_surrogate_def js_def)

lemma stored_letter_reads_back:
  "JSON_parse (JSON_stringify (JArray [json_of_journal_entry
      \<lparr>j_id = js ''j_4fzyo82'', j_title = js ''Hi'', j_body = js ''Dear you'', j_createdAt = 9\<rparr>]))
   = Inr (JArray [json_of_journal_entry
      \<lparr>j_id = js ''j_4fzyo82'', j_title = js ''Hi'', j_body = js ''Dear you'', j_createdAt = 9\<rparr>])"
  unfolding stored_letter_text
  by (simp add: json_eval json_of_journal_entry_def decimal_9 parse_number_def parse_sign_def
        parse_int_part_def parse_frac_def parse_exp_def digits_def)

section \<open>Voice uploads\<close>

text \<open>
  Claim C9. \<open>removeUpload\<close> is idempotent: a second call with the same id leaves the whole
  state, the stored copy included, as the first call has left it. No record with that id
  remains, and no URL is revoked by either call, so nothing is released twice and no call
  fails.
\<close>

theorem removeUpload_idempotent:
  "removeUpload i (removeUpload i s) = removeUpload i s
   \<and> i \<notin> v_id ` set (voiceUploads (removeUpload i s))
   \<and> revokedURLs (removeUpload i s) = revokedURLs s"
  by (auto simp: removeUpload_def setVoiceUploads_def persistVoiceUploads_def)

text \<open>
  No event of the page revokes a URL, and none changes the collection that the cleanup
  holds. Whatever the session, the cleanup therefore revokes the URLs of the records that
  were loaded at the start, and no others.
\<close>

lemma revokedURLs_fire: "revokedURLs (fire lower e s) = revokedURLs s"
  by (cases e)
    (simp_all add: handleVoiceUpload_def removeUpload_def setVoiceUploads_def
      persistVoiceUploads_def alert_def sendChat_def setTimeout_def chatReply_def
      generateAndSpeak_def playStory_def speakText_def Let_def clickStart_def startHealing_def
      stopHealing_def clearInterval_def healingTick_def save_def addJournalEntry_def
      deleteJournalEntry_def setJournalEntries_def persistJournal_def
      split: option.splits timer.splits sum.splits)

lemma cleanupUploads_fire: "cleanupUploads (fire lower e s) = cleanupUploads s"
  by (cases e)
    (simp_all add: handleVoiceUpload_def removeUpload_def setVoiceUploads_def
      persistVoiceUploads_def alert_def sendChat_def setTimeout_def chatReply_def
      generateAndSpeak_def playStory_def speakText_def Let_def clickStart_def startHealing_def
      stopHealing_def clearInterval_def healingTick_def save_def addJournalEntry_def
      deleteJournalEntry_def setJournalEntries_def persistJournal_def
      split: option.splits timer.splits sum.splits)

lemma revoked_cleanup_run:
  "revokedURLs (run lower es s) = revokedURLs s \<and> cleanupUploads (run lower es s) = cleanupUploads s"
  by (induction es arbitrary: s) (simp_all add: revokedURLs_fire cleanupUploads_fire)

lemma unmount_revokes_only_loaded:
  "revokedURLs (unmount (run lower es (mount store speech ups jrn now))) = map v_url ups"
  by (simp add: unmount_def revoked_cleanup_run)
     (simp add: mount_def persistJournal_def persistVoiceUploads_def)

text \<open>
  Claim C2, evaluated where it fails. One clip is uploaded into an empty registry and its
  object URL \<open>blob:a\<close> is recorded. Unmounting revokes nothing, because the cleanup runs
  over the collection of the first render; removing the record revokes nothing either, and
  after removal and unmount the URL is still outstanding.
\<close>

theorem uploaded_handle_is_never_revoked:
  "voiceUploads (handleVoiceUpload [clip] (mount Map.empty True [] [] 0))
     = [\<lparr>v_id = js ''voice_4fzyo82'', v_name = js ''a.mp3'', v_size = 3, v_url = js ''blob:a'',
         v_createdAt = 5\<rparr>]
   \<and> revokedURLs (unmount (handleVoiceUpload [clip] (mount Map.empty True [] [] 0))) = []
   \<and> voiceUploads (removeUpload (js ''voice_4fzyo82'')
        (handleVoiceUpload [clip] (mount Map.empty True [] [] 0))) = []
   \<and> revokedURLs (unmount (removeUpload (js ''voice_4fzyo82'')
        (handleVoiceUpload [clip] (mount Map.empty True [] [] 0)))) = []
   \<and> outstandingURLs (unmount (removeUpload (js ''voice_4fzyo82'')
        (handleVoiceUpload [clip] (mount Map.empty True [] [] 0)))) = [js ''blob:a'']"
  by (simp add: clip_def handleVoiceUpload_def removeUpload_def unmount_def outstandingURLs_def
        setVoiceUploads_def persistVoiceUploads_def persistJournal_def mount_def uploadItem_def
        uid_ex)

section \<open>Journal\<close>

text \<open>
  Claim C5. \<open>save\<close> with a title or a body that is empty after trimming only raises the
  notice: the state is the old one with the notice appended to the alerts, so the journal
  and its stored copy are unchanged. With both fields non-empty after trimming, the new
  entry, made of the trimmed fields, is put in front of the collection, the stored copy
  is the serialised new collection, and no notice is raised.
\<close>

theorem save_validates:
  "(trim (formTitle s) = [] \<or> trim (formBody s) = [] \<longrightarrow>
      save rnd36 now s = s\<lparr>alerts := alerts s @ [js ''Please add a title and some words.'']\<rparr>)
   \<and> (trim (formTitle s) \<noteq> [] \<and> trim (formBody s) \<noteq> [] \<longrightarrow>
        journalEntries (save rnd36 now s)
          = \<lparr>j_id = uid (js ''j'') rnd36, j_title = trim (formTitle s),
             j_body = trim (formBody s), j_createdAt = now\<rparr> # journalEntries s
        \<and> localStorage (save rnd36 now s) journal_key
            = Some (JSON_stringify (JArray (map json_of_journal_entry
                 (journalEntries (save rnd36 now s)))))
        \<and> alerts (save rnd36 now s) = alerts s)"
  by (simp add: save_def alert_def addJournalEntry_def setJournalEntries_def persistJournal_def)

theorem save_witness:
  "trim (formBody hi_without_body) = []
   \<and> save (js ''0.4fzyo82mvyr'') 9 hi_without_body
       = hi_without_body\<lparr>alerts := [js ''Please add a title and some words.'']\<rparr>
   \<and> trim (formTitle hi_with_body) \<noteq> [] \<and> trim (formBody hi_with_body) \<noteq> []
   \<and> journalEntries (save (js ''0.4fzyo82mvyr'') 9 hi_with_body)
       = [\<lparr>j_id = js ''j_4fzyo82'', j_title = js ''Hi'', j_body = js ''Dear you'',
           j_createdAt = 9\<rparr>]"
proof -
  have a: "trim (formBody hi_without_body) = []"
    by (simp add: hi_without_body_def trim_empty mount_def persistJournal_def persistVoiceUploads_def)
  have t: "formTitle hi_with_body = js ''Hi''" "formBody hi_with_body = js '' Dear you  ''"
    by (simp_all add: hi_with_body_def hi_without_body_def)
  have b: "trim (formTitle hi_with_body) \<noteq> [] \<and> trim (formBody hi_with_body) \<noteq> []"
    by (simp add: t trim_Hi trim_sp) (simp add: js_def)
  have c: "alerts hi_without_body = []" "journalEntries hi_with_body = []"
    by (simp_all add: hi_with_body_def hi_without_body_def mount_def persistJournal_def
          persistVoiceUploads_def)
  from a save_validates [of hi_without_body "js ''0.4fzyo82mvyr''" 9]
  have "save (js ''0.4fzyo82mvyr'') 9 hi_without_body
       = hi_without_body\<lparr>alerts := [js ''Please add a title and some words.'']\<rparr>"
    by (simp add: c)
  moreover from b save_validates [of hi_with_body "js ''0.4fzyo82mvyr''" 9]
  have "journalEntries (save (js ''0.4fzyo82mvyr'') 9 hi_with_body)
       = [\<lparr>j_id = js ''j_4fzyo82'', j_title = js ''Hi'', j_body = js ''Dear you'',
           j_createdAt = 9\<rparr>]"
    by (simp add: c t trim_Hi trim_sp uid_j1)
  ultimately show ?thesis using a b by blast
qed

section \<open>Chat\<close>

lemma truncate_js_80:
  "truncate_js u 80 = (if 80 < length u then take 79 u @ [ellipsis] else u)"
  by (simp add: truncate_js_def slice_def Let_def)

lemma pick_in_range:
  assumes "0 \<le> random" and "random < 1"
  shows "0 \<le> \<lfloor>random * 4\<rfloor> \<and> \<lfloor>random * 4\<rfloor> < (4::int)"
proof -
  from assms(1) have "0 \<le> random * 4" by simp
  then have a: "0 \<le> \<lfloor>random * 4\<rfloor>" by simp
  from assms(2) have "random * 4 < 4" by simp
  then have "\<lfloor>random * 4\<rfloor> < 4" by (simp add: floor_less_iff)
  with a show ?thesis by simp
qed

lemma length_templates: "length templates = 4"
  by (simp add: templates_def)

lemma template_nonempty: "k < 4 \<Longrightarrow> (templates ! k) u \<noteq> []"
proof -
  assume "k < 4"
  then have "k = 0 \<or> k = 1 \<or> k = 2 \<or> k = 3" by arith
  then show ?thesis by (auto simp: templates_def js_def)
qed

lemma generateSoulReply_ok:
  assumes "0 \<le> random" and "random < 1"
  shows "generateSoulReply random u = Inr ((templates ! nat \<lfloor>random * 4\<rfloor>) u)
         \<and> nat \<lfloor>random * 4\<rfloor> < 4"
proof -
  from pick_in_range [OF assms]
  have lo: "0 \<le> \<lfloor>random * 4\<rfloor>" and hi: "\<lfloor>random * 4\<rfloor> < 4" by blast+
  from lo hi have "nat \<lfloor>random * 4\<rfloor> < 4" by linarith
  moreover from lo hi
  have "generateSoulReply random u = Inr ((templates ! nat \<lfloor>random * 4\<rfloor>) u)"
    unfolding generateSoulReply_def length_templates Let_def by simp
  ultimately show ?thesis by blast
qed

text \<open>
  Claim C7. For a draw of \<open>Math.random()\<close> in \<open>[0, 1)\<close>, \<open>generateSoulReply\<close> returns a
  non-empty string, for every text. A draw below \<open>1/4\<close> selects the echo template, which
  embeds \<open>truncate(userText, 80)\<close> between double quotes: the text itself when it has at
  most 80 code units, otherwise its first 79 code units followed by the ellipsis, 80 code
  units in all.
\<close>

theorem reply_nonempty_echo_truncated:
  "(0 \<le> random \<and> random < 1 \<longrightarrow>
      (\<exists>r. generateSoulReply random userText = Inr r \<and> r \<noteq> []))
   \<and> (0 \<le> random \<and> random < 1 / 4 \<longrightarrow>
        generateSoulReply random userText
          = Inr (js ''I remember when you told me: '' @ [0x22] @ truncate_js userText 80 @ [0x22]
                 @ js ''. That made me smile.''))
   \<and> truncate_js userText 80
        = (if 80 < length userText then take 79 userText @ [ellipsis] else userText)
   \<and> length (truncate_js userText 80) \<le> 80"
proof -
  have a: "\<exists>r. generateSoulReply random userText = Inr r \<and> r \<noteq> []"
    if "0 \<le> random" "random < 1"
    using generateSoulReply_ok [OF that, of userText] template_nonempty by blast
  have b: "generateSoulReply random userText
          = Inr (js ''I remember when you told me: '' @ [0x22] @ truncate_js userText 80 @ [0x22]
                 @ js ''. That made me smile.'')"
    if "0 \<le> random" "random < 1 / 4"
  proof -
    from that have "0 \<le> random * 4" "random * 4 < 1" by simp_all
    then have "\<lfloor>random * 4\<rfloor> = 0" by (simp add: floor_eq_iff)
    then show ?thesis by (simp add: generateSoulReply_def length_templates Let_def templates_def)
  qed
  have c: "length (truncate_js userText 80) \<le> 80"
    by (simp add: truncate_js_80)
  from a b c truncate_js_80 [of userText] show ?thesis by blast
qed

theorem reply_witness:
  "(0::rat) \<le> 1 / 8 \<and> (1 / 8 :: rat) < 1 \<and> (1 / 8 :: rat) < 1 / 4
   \<and> generateSoulReply (1 / 8) (js ''hello'')
       = Inr (js ''I remember when you told me: '' @ [0x22] @ js ''hello'' @ [0x22]
              @ js ''. That made me smile.'')
   \<and> truncate_js (replicate 100 0x61) 80 = replicate 79 0x61 @ [ellipsis]"
proof -
  have r: "(0::rat) \<le> 1 / 8 \<and> (1 / 8 :: rat) < 1 / 4" by simp
  note T = reply_nonempty_echo_truncated
  from r T [of "1 / 8" "js ''hello''"]
  have "generateSoulReply (1 / 8) (js ''hello'')
       = Inr (js ''I remember when you told me: '' @ [0x22] @ truncate_js (js ''hello'') 80 @ [0x22]
              @ js ''. That made me smile.'')" by blast
  moreover from T [of "1 / 8" "js ''hello''"]
  have "truncate_js (js ''hello'') 80 = js ''hello''" by (simp add: js_def)
  moreover from T [of 0 "replicate 100 0x61"]
  have "truncate_js (replicate 100 0x61) 80 = replicate 79 0x61 @ [ellipsis]" by simp
  ultimately show ?thesis by simp
qed

lemma chatReply_appends:
  assumes "map_of (timers s) t = Some (Timeout delay captured)" and "0 \<le> random" and "random < 1"
  shows "(\<exists>reply \<in> set (map (\<lambda>f. f (trim captured)) templates).
            chatMessages (chatReply t random rnd36 now s)
              = chatMessages s @ [\<lparr>m_id = StrId (uid (js ''m'') rnd36), m_from = Soul,
                                   m_text = reply, m_time = now\<rparr>])
         \<and> map_of (timers (chatReply t random rnd36 now s)) t = None"
proof -
  let ?k = "nat \<lfloor>random * 4\<rfloor>"
  from generateSoulReply_ok [OF assms(2,3), of "trim captured"]
  have g: "generateSoulReply random (trim captured) = Inr ((templates ! ?k) (trim captured))"
    and k: "?k < 4" by simp_all
  from k have "templates ! ?k \<in> set templates" by (simp add: length_templates)
  then have mem: "(templates ! ?k) (trim captured) \<in> set (map (\<lambda>f. f (trim captured)) templates)"
    by simp
  have "chatMessages (chatReply t random rnd36 now s)
      = chatMessages s @ [\<lparr>m_id = StrId (uid (js ''m'') rnd36), m_from = Soul,
                           m_text = (templates ! ?k) (trim captured), m_time = now\<rparr>]"
    using assms(1) g by (simp add: chatReply_def Let_def speakText_def)
  moreover have "map_of (timers (chatReply t random rnd36 now s)) t = None"
    using assms(1) g by (simp add: chatReply_def Let_def speakText_def delete_conv)
  ultimately show ?thesis using mem by blast
qed

text \<open>
  Claim C6. \<open>sendChat\<close> with an input that is empty after trimming leaves the state as it
  is. Otherwise it appends one message from the user with the trimmed input as its text and
  schedules one timeout. When a pending timeout of this kind fires, with a draw in
  \<open>[0, 1)\<close>, the log gains one message from the companion whose text is the output of one
  of the four templates on the trimmed input, and the timeout is gone, so it fires once.
\<close>

theorem sendChat_then_one_reply:
  "(trim (chatInput s) = [] \<longrightarrow> sendChat rnd36 random now s = s)
   \<and> (trim (chatInput s) \<noteq> [] \<longrightarrow>
        chatMessages (sendChat rnd36 random now s)
          = chatMessages s @ [\<lparr>m_id = StrId (uid (js ''m'') rnd36), m_from = You,
                               m_text = trim (chatInput s), m_time = now\<rparr>]
        \<and> timers (sendChat rnd36 random now s)
            = (nextTimerId s, Timeout (850 + random * 650) (chatInput s)) # timers s)
   \<and> (map_of (timers s') t = Some (Timeout delay captured) \<and> 0 \<le> random' \<and> random' < 1 \<longrightarrow>
        (\<exists>reply \<in> set (map (\<lambda>f. f (trim captured)) templates).
            chatMessages (chatReply t random' rnd36' now' s')
              = chatMessages s' @ [\<lparr>m_id = StrId (uid (js ''m'') rnd36'), m_from = Soul,
                                    m_text = reply, m_time = now'\<rparr>])
        \<and> map_of (timers (chatReply t random' rnd36' now' s')) t = None)
   \<and> length templates = 4"
proof -
  have a: "trim (chatInput s) = [] \<longrightarrow> sendChat rnd36 random now s = s"
    by (simp add: sendChat_def)
  have b: "trim (chatInput s) \<noteq> [] \<longrightarrow>
        chatMessages (sendChat rnd36 random now s)
          = chatMessages s @ [\<lparr>m_id = StrId (uid (js ''m'') rnd36), m_from = You,
                               m_text = trim (chatInput s), m_time = now\<rparr>]
        \<and> timers (sendChat rnd36 random now s)
            = (nextTimerId s, Timeout (850 + random * 650) (chatInput s)) # timers s"
    by (simp add: sendChat_def setTimeout_def Let_def)
  from a b chatReply_appends [of s' t delay captured random' rnd36' now'] length_templates
  show ?thesis by blast
qed

theorem sendChat_witness:
  "trim (chatInput (mount Map.empty True [] [] 0)) = []
   \<and> sendChat (js ''0.4fzyo82mvyr'') (1 / 2) 7 (mount Map.empty True [] [] 0)
       = mount Map.empty True [] [] 0
   \<and> trim (chatInput hello_typed) \<noteq> []
   \<and> map m_text (chatMessages hello_sent) = [greeting, js ''hello'']
   \<and> map_of (timers hello_sent) 1 = Some (Timeout 1175 (js '' hello ''))
   \<and> (0::rat) \<le> 1 / 2 \<and> (1 / 2 :: rat) < 1
   \<and> (\<exists>reply \<in> set (map (\<lambda>f. f (trim (js '' hello ''))) templates).
         chatMessages (chatReply 1 (1 / 2) (js ''0.9k2'') 9 hello_sent)
           = chatMessages hello_sent @ [\<lparr>m_id = StrId (uid (js ''m'') (js ''0.9k2'')),
                m_from = Soul, m_text = reply, m_time = 9\<rparr>])"
proof -
  have i: "chatInput (mount Map.empty True [] [] 0) = []"
    "chatInput hello_typed = js '' hello ''"
    "nextTimerId hello_typed = 1" "timers hello_typed = []"
    "map m_text (chatMessages hello_typed) = [greeting]"
    by (simp_all add: hello_typed_def mount_def persistJournal_def persistVoiceUploads_def)
  have a: "trim (chatInput (mount Map.empty True [] [] 0)) = []"
    by (simp add: i trim_empty)
  have b: "trim (chatInput hello_typed) \<noteq> []"
    by (simp add: i trim_hello) (simp add: js_def)
  note T = sendChat_then_one_reply
  from a T [of "mount Map.empty True [] [] 0" "js ''0.4fzyo82mvyr''" "1 / 2" 7]
  have c: "sendChat (js ''0.4fzyo82mvyr'') (1 / 2) 7 (mount Map.empty True [] [] 0)
       = mount Map.empty True [] [] 0" by blast
  from b T [of hello_typed "js ''0.4fzyo82mvyr''" "1 / 2" 7]
  have d: "chatMessages hello_sent
          = chatMessages hello_typed @ [\<lparr>m_id = StrId (uid (js ''m'') (js ''0.4fzyo82mvyr'')),
               m_from = You, m_text = trim (chatInput hello_typed), m_time = 7\<rparr>]"
    and e: "timers hello_sent
            = (nextTimerId hello_typed, Timeout (850 + 1 / 2 * 650) (chatInput hello_typed))
              # timers hello_typed"
    unfolding hello_sent_def by blast+
  from d have d': "map m_text (chatMessages hello_sent) = [greeting, js ''hello'']"
    by (simp add: i trim_hello)
  from e have e': "map_of (timers hello_sent) 1 = Some (Timeout 1175 (js '' hello ''))"
    by (simp add: i)
  have r: "(0::rat) \<le> 1 / 2 \<and> (1 / 2 :: rat) < 1" by simp
  with e' T [where s' = hello_sent and t = 1 and delay = 1175 and captured = "js '' hello ''"
      and random' = "1 / 2" and rnd36' = "js ''0.9k2''" and now' = 9]
  have "\<exists>reply \<in> set (map (\<lambda>f. f (trim (js '' hello ''))) templates).
         chatMessages (chatReply 1 (1 / 2) (js ''0.9k2'') 9 hello_sent)
           = chatMessages hello_sent @ [\<lparr>m_id = StrId (uid (js ''m'') (js ''0.9k2'')),
                m_from = Soul, m_text = reply, m_time = 9\<rparr>]"
    by blast
  with a b c d' e' r show ?thesis by blast
qed

section \<open>Initial state and persistence\<close>

text \<open>
  Claim C10. The chat log of the first render is the greeting alone, whatever the store
  holds and whatever the two initializers have returned; so it is again after a reload
  that follows any session. No event writes the chat log to the store: an event leaves a
  key of the store as it was, or writes the serialised uploads under the uploads key, or
  the serialised journal under the journal key.
\<close>

theorem mount_chat_is_greeting:
  "chatMessages (mount store speech ups jrn now)
     = [\<lparr>m_id = NumId 1, m_from = Soul, m_text = greeting, m_time = now\<rparr>]
   \<and> chatMessages (mount (localStorage (run lower es previous)) speech ups' jrn' now')
     = [\<lparr>m_id = NumId 1, m_from = Soul, m_text = greeting, m_time = now'\<rparr>]
   \<and> (\<forall>k. localStorage (fire lower e s) k = localStorage s k
          \<or> k = voice_uploads_key
             \<and> localStorage (fire lower e s) k
                 = Some (JSON_stringify (JArray (map json_of_upload (voiceUploads (fire lower e s)))))
          \<or> k = journal_key
             \<and> localStorage (fire lower e s) k
                 = Some (JSON_stringify (JArray (map json_of_journal_entry
                      (journalEntries (fire lower e s))))))"
proof -
  have chat: "chatMessages (mount st sp u j n)
      = [\<lparr>m_id = NumId 1, m_from = Soul, m_text = greeting, m_time = n\<rparr>]" for st sp u j n
    by (simp add: mount_def persistJournal_def persistVoiceUploads_def)
  have store: "localStorage (fire lower e s) k = localStorage s k
          \<or> k = voice_uploads_key
             \<and> localStorage (fire lower e s) k
                 = Some (JSON_stringify (JArray (map json_of_upload (voiceUploads (fire lower e s)))))
          \<or> k = journal_key
             \<and> localStorage (fire lower e s) k
                 = Some (JSON_stringify (JArray (map json_of_journal_entry
                      (journalEntries (fire lower e s)))))" for k
    by (cases e)
      (simp_all add: handleVoiceUpload_def removeUpload_def setVoiceUploads_def
        persistVoiceUploads_def alert_def sendChat_def setTimeout_def chatReply_def
        generateAndSpeak_def playStory_def speakText_def Let_def clickStart_def startHealing_def
        stopHealing_def clearInterval_def healingTick_def save_def addJournalEntry_def
        deleteJournalEntry_def setJournalEntries_def persistJournal_def
        split: option.splits timer.splits sum.splits)
  from chat store show ?thesis by blast
qed

section \<open>The persistent store\<close>

text \<open>
  Claim C4, as the source has it. The initializer never raises. It gives the empty array
  when the key is not stored or holds the empty string (for a parser that reads \<open>[]\<close> as
  the empty array) and when the parser raises; a text that the parser accepts is returned
  as parsed.
\<close>

theorem load_collection_never_throws:
  "(\<exists>v. load_collection parse store key = Inr v)
   \<and> ((store key = None \<or> store key = Some []) \<and> parse (js ''[]'') = Inr (JArray []) \<longrightarrow>
        load_collection parse store key = Inr (JArray []))
   \<and> (parse (getItem_or_default store key) = Inl e \<longrightarrow>
        load_collection parse store key = Inr (JArray []))
   \<and> (parse (getItem_or_default store key) = Inr v \<longrightarrow> load_collection parse store key = Inr v)"
  by (cases "parse (getItem_or_default store key)")
     (auto simp: load_collection_def try_catch_def getItem_or_default_def)

theorem load_collection_witness:
  "(Map.empty :: storage) journal_key = None \<and> JSON_parse (js ''[]'') = Inr (JArray [])
   \<and> load_collection JSON_parse Map.empty journal_key = Inr (JArray [])
   \<and> JSON_parse (getItem_or_default (Map.empty(journal_key \<mapsto> js ''[{'')) journal_key)
       = Inl SyntaxError
   \<and> load_collection JSON_parse (Map.empty(journal_key \<mapsto> js ''[{'')) journal_key
       = Inr (JArray [])
   \<and> JSON_parse (getItem_or_default (Map.empty(journal_key \<mapsto> js ''[true]'')) journal_key)
       = Inr (JArray [JBool True])
   \<and> load_collection JSON_parse (Map.empty(journal_key \<mapsto> js ''[true]'')) journal_key
       = Inr (JArray [JBool True])"
proof -
  note T = load_collection_never_throws
  have g: "getItem_or_default (Map.empty(journal_key \<mapsto> js ''[{'')) journal_key = js ''[{''"
    "getItem_or_default (Map.empty(journal_key \<mapsto> js ''[true]'')) journal_key = js ''[true]''"
    by (simp_all add: getItem_or_default_def js_def)
  have p: "JSON_parse (js ''[true]'') = Inr (JArray [JBool True])"
    by (simp add: json_eval)
  from T [of JSON_parse Map.empty journal_key] parse_empty
  have a: "load_collection JSON_parse Map.empty journal_key = Inr (JArray [])" by simp
  from T [of JSON_parse "Map.empty(journal_key \<mapsto> js ''[{'')" journal_key SyntaxError] parse_bad
  have b: "load_collection JSON_parse (Map.empty(journal_key \<mapsto> js ''[{'')) journal_key
       = Inr (JArray [])" by (simp add: g)
  from T [of JSON_parse "Map.empty(journal_key \<mapsto> js ''[true]'')" journal_key _
      "JArray [JBool True]"] p
  have c: "load_collection JSON_parse (Map.empty(journal_key \<mapsto> js ''[true]'')) journal_key
       = Inr (JArray [JBool True])" by (simp add: g)
  from a b c parse_empty parse_bad p show ?thesis by (simp add: g)
qed

text \<open>
  A stored text that is valid JSON but not a collection is therefore not replaced by the
  empty collection: the stored text \<open>null\<close> is returned as the value \<open>null\<close>.
\<close>

theorem load_collection_null_counterexample:
  "load_collection JSON_parse (Map.empty(journal_key \<mapsto> js ''null'')) journal_key = Inr JNull"
  by (simp add: load_collection_def try_catch_def getItem_or_default_def parse_null)
     (simp add: js_def)

section \<open>Ids\<close>

lemma map_v_id_uploadItem:
  "map v_id (map uploadItem draws) = map (\<lambda>d. uid (js ''voice'') (d_rnd36 d)) draws"
  by (simp add: uploadItem_def)

lemma unique_ids_upload:
  assumes "unique_ids s" and "fresh_draws (Upload draws) s"
  shows "unique_ids (handleVoiceUpload draws s)"
proof -
  have "distinct (map v_id (map uploadItem draws @ voiceUploads s))"
    using assms unfolding unique_ids_def
    by (auto simp: map_v_id_uploadItem simp del: map_map)
  with assms(1) show ?thesis
    by (simp add: unique_ids_def handleVoiceUpload_def setVoiceUploads_def persistVoiceUploads_def)
qed

lemma unique_ids_chatReply:
  assumes "unique_ids s" and "StrId (uid (js ''m'') rnd36) \<notin> m_id ` set (chatMessages s)"
  shows "unique_ids (chatReply t random rnd36 now s)"
  using assms
  by (auto simp: unique_ids_def chatReply_def Let_def speakText_def
        split: option.splits timer.splits sum.splits)

lemma unique_ids_fire:
  assumes "unique_ids s" and "fresh_draws e s"
  shows "unique_ids (fire lower e s)"
proof (cases e)
  case (Upload draws)
  with assms show ?thesis by (simp add: unique_ids_upload)
next
  case (ReplyFires t random rnd36 now)
  with assms show ?thesis by (simp add: unique_ids_chatReply)
next
  case (IntervalFires t)
  with assms show ?thesis
    by (simp add: unique_ids_def healingTick_def Let_def speakText_def clearInterval_def
          split: option.splits timer.splits)
next
  case (DeleteClip i)
  with assms show ?thesis
    by (simp add: unique_ids_def removeUpload_def setVoiceUploads_def persistVoiceUploads_def
          distinct_map_filter)
next
  case (DeleteLetter i)
  with assms show ?thesis
    by (simp add: unique_ids_def deleteJournalEntry_def setJournalEntries_def persistJournal_def
          distinct_map_filter)
qed (use assms in \<open>auto simp: unique_ids_def alert_def sendChat_def setTimeout_def
      generateAndSpeak_def playStory_def speakText_def Let_def clickStart_def startHealing_def
      stopHealing_def clearInterval_def save_def addJournalEntry_def
      setJournalEntries_def persistJournal_def split: option.splits\<close>)

lemma uid_eq_iff: "uid p r = uid p r' \<longleftrightarrow> kept_digits r = kept_digits r'"
  by (simp add: uid_def kept_digits_def)

lemma distinct_map_uid:
  assumes "distinct (map kept_digits rs)"
  shows "distinct (map (uid p) rs)"
proof -
  from assms have d: "distinct rs" and i: "inj_on kept_digits (set rs)"
    by (simp_all add: distinct_map)
  have "inj_on (uid p) (set rs)"
  proof (rule inj_onI)
    fix x y assume "x \<in> set rs" "y \<in> set rs" "uid p x = uid p y"
    then show "x = y" using i by (simp add: uid_eq_iff inj_on_def)
  qed
  with d show ?thesis by (simp add: distinct_map)
qed

lemmas handler_defs = handleVoiceUpload_def removeUpload_def setVoiceUploads_def
  persistVoiceUploads_def alert_def sendChat_def setTimeout_def chatReply_def
  generateAndSpeak_def playStory_def speakText_def Let_def clickStart_def startHealing_def
  stopHealing_def clearInterval_def healingTick_def save_def addJournalEntry_def
  deleteJournalEntry_def setJournalEntries_def persistJournal_def

lemma v_ids_fire:
  "v_id ` set (voiceUploads (fire lower e s))
   \<subseteq> v_id ` set (voiceUploads s) \<union> uid (js ''voice'') ` set (voice_draws e)"
  by (cases e)
     (auto simp: handler_defs uploadItem_def split: option.splits timer.splits sum.splits)

lemma j_ids_fire:
  "j_id ` set (journalEntries (fire lower e s))
   \<subseteq> j_id ` set (journalEntries s) \<union> uid (js ''j'') ` set (journal_draws e)"
  by (cases e)
     (auto simp: handler_defs split: option.splits timer.splits sum.splits)

lemma m_ids_fire:
  "m_id ` set (chatMessages (fire lower e s))
   \<subseteq> m_id ` set (chatMessages s) \<union> (\<lambda>r. StrId (uid (js ''m'') r)) ` set (chat_draws e)"
  by (cases e)
     (auto simp: handler_defs split: option.splits timer.splits sum.splits)

lemma draws_ahead_fresh:
  assumes "draws_ahead (e # es) s"
  shows "fresh_draws e s"
proof (cases e)
  case (Upload draws)
  from assms Upload have "distinct (map kept_digits (map d_rnd36 draws))"
    and "\<forall>d \<in> set draws. uid (js ''voice'') (d_rnd36 d) \<notin> v_id ` set (voiceUploads s)"
    by (auto simp: draws_ahead_def distinct_draws_def)
  with distinct_map_uid [of "map d_rnd36 draws" "js ''voice''"] Upload
  show ?thesis by (simp add: comp_def)
qed (use assms in \<open>auto simp: draws_ahead_def distinct_draws_def\<close>)

lemma draws_ahead_step:
  assumes "draws_ahead (e # es) s"
  shows "draws_ahead es (fire lower e s)"
proof -
  have v: "uid (js ''voice'') r \<notin> v_id ` set (voiceUploads (fire lower e s))"
    if "r \<in> set (concat (map voice_draws es))" for r
  proof
    assume "uid (js ''voice'') r \<in> v_id ` set (voiceUploads (fire lower e s))"
    with v_ids_fire [of lower e s]
    consider "uid (js ''voice'') r \<in> v_id ` set (voiceUploads s)"
      | r' where "r' \<in> set (voice_draws e)" "uid (js ''voice'') r = uid (js ''voice'') r'"
      by blast
    then show False
    proof cases
      case 1
      with assms that show False by (auto simp: draws_ahead_def distinct_draws_def)
    next
      case 2
      then have "kept_digits r = kept_digits r'" by (simp add: uid_eq_iff)
      with 2(1) that assms show False
        by (force simp: draws_ahead_def distinct_draws_def)
    qed
  qed
  have j: "uid (js ''j'') r \<notin> j_id ` set (journalEntries (fire lower e s))"
    if "r \<in> set (concat (map journal_draws es))" for r
  proof
    assume "uid (js ''j'') r \<in> j_id ` set (journalEntries (fire lower e s))"
    with j_ids_fire [of lower e s]
    consider "uid (js ''j'') r \<in> j_id ` set (journalEntries s)"
      | r' where "r' \<in> set (journal_draws e)" "uid (js ''j'') r = uid (js ''j'') r'"
      by blast
    then show False
    proof cases
      case 1
      with assms that show False by (auto simp: draws_ahead_def distinct_draws_def)
    next
      case 2
      then have "kept_digits r = kept_digits r'" by (simp add: uid_eq_iff)
      with 2(1) that assms show False
        by (force simp: draws_ahead_def distinct_draws_def)
    qed
  qed
  have m: "StrId (uid (js ''m'') r) \<notin> m_id ` set (chatMessages (fire lower e s))"
    if "r \<in> set (concat (map chat_draws es))" for r
  proof
    assume "StrId (uid (js ''m'') r) \<in> m_id ` set (chatMessages (fire lower e s))"
    with m_ids_fire [of lower e s]
    consider "StrId (uid (js ''m'') r) \<in> m_id ` set (chatMessages s)"
      | r' where "r' \<in> set (chat_draws e)" "uid (js ''m'') r = uid (js ''m'') r'"
      by blast
    then show False
    proof cases
      case 1
      with assms that show False by (auto simp: draws_ahead_def)
    next
      case 2
      then have "kept_digits r = kept_digits r'" by (simp add: uid_eq_iff)
      with 2(1) that assms show False
        by (force simp: draws_ahead_def)
    qed
  qed
  from assms have "distinct (map kept_digits (concat (map voice_draws es)))"
    "distinct (map kept_digits (concat (map journal_draws es)))"
    "distinct (map kept_digits (concat (map chat_draws es)))"
    by (simp_all add: draws_ahead_def distinct_draws_def)
  with v j m show ?thesis by (simp add: draws_ahead_def distinct_draws_def)
qed

lemma unique_ids_ahead:
  "unique_ids s \<Longrightarrow> draws_ahead es s \<Longrightarrow> unique_ids (run lower es s)"
proof (induction es arbitrary: s)
  case Nil
  then show ?case by simp
next
  case (Cons e es)
  from Cons.prems have "unique_ids (fire lower e s)"
    by (simp add: unique_ids_fire draws_ahead_fresh)
  moreover from Cons.prems have "draws_ahead es (fire lower e s)"
    by (simp add: draws_ahead_step)
  ultimately show ?case using Cons.IH by simp
qed

text \<open>
  Claim C8, as the source has it. When the collections loaded at the start have distinct
  ids, and the draws of \<open>uid\<close> made for a collection differ pairwise in the digits that
  are kept and give no id that was loaded, no two records of a collection share an id,
  after every sequence of events.
\<close>

theorem ids_unique_when_kept_digits_differ:
  "distinct (map v_id ups) \<and> distinct (map j_id jrn)
   \<and> distinct_draws (js ''voice'') (concat (map voice_draws es)) (map v_id ups)
   \<and> distinct_draws (js ''j'') (concat (map journal_draws es)) (map j_id jrn)
   \<and> distinct_draws (js ''m'') (concat (map chat_draws es)) []
   \<longrightarrow> unique_ids (run lower es (mount store speech ups jrn now))"
proof
  assume a: "distinct (map v_id ups) \<and> distinct (map j_id jrn)
   \<and> distinct_draws (js ''voice'') (concat (map voice_draws es)) (map v_id ups)
   \<and> distinct_draws (js ''j'') (concat (map journal_draws es)) (map j_id jrn)
   \<and> distinct_draws (js ''m'') (concat (map chat_draws es)) []"
  have f: "voiceUploads (mount store speech ups jrn now) = ups"
    "journalEntries (mount store speech ups jrn now) = jrn"
    "m_id ` set (chatMessages (mount store speech ups jrn now)) = {NumId 1}"
    by (simp_all add: mount_def persistJournal_def persistVoiceUploads_def)
  from a have "unique_ids (mount store speech ups jrn now)"
    by (simp add: unique_ids_def mount_def persistJournal_def persistVoiceUploads_def)
  moreover from a have "draws_ahead es (mount store speech ups jrn now)"
    unfolding draws_ahead_def f by (simp add: distinct_draws_def)
  ultimately show "unique_ids (run lower es (mount store speech ups jrn now))"
    by (rule unique_ids_ahead)
qed

lemma kept_1: "kept_digits (js ''0.4fzyo82mvyr'') = js ''4fzyo82''"
  by (simp add: kept_digits_def slice_def js_def)
lemma kept_2: "kept_digits (js ''0.9k2'') = js ''9k2''"
  by (simp add: kept_digits_def slice_def js_def)
lemma uid_of_kept: "uid p r = p @ js ''_'' @ kept_digits r"
  by (simp add: uid_def kept_digits_def)

text \<open>
  A session that uploads two clips, saves two letters next to a loaded one, and sends a
  message that is answered: the ids of its three collections.
\<close>

lemma js_Cons_not_Nil: "js (c # cs) \<noteq> []"
  by (simp add: js_def)

lemma uid_v2: "uid (js ''voice'') (js ''0.9k2'') = js ''voice_9k2''"
  by (simp add: uid_def slice_def js_def)
lemma uid_j3: "uid (js ''j'') (js ''0.9k2'') = js ''j_9k2''"
  by (simp add: uid_def slice_def js_def)

lemma busy_session_ids:
  "map v_id (voiceUploads (run (\<lambda>u. u) busy_session (mount Map.empty True [] [old_letter] 0)))
     = [js ''voice_4fzyo82'', js ''voice_9k2'']
   \<and> map j_id (journalEntries (run (\<lambda>u. u) busy_session (mount Map.empty True [] [old_letter] 0)))
     = [js ''j_9k2'', js ''j_4fzyo82'', js ''j_0k3x9ab'']
   \<and> length (chatMessages (run (\<lambda>u. u) busy_session (mount Map.empty True [] [old_letter] 0))) = 3"
  by (simp add: busy_session_def clip_def clip2_def old_letter_def handler_defs mount_def
        uploadItem_def trim_letters trim_hello uid_ex uid_v2 uid_j1 uid_j3 generateSoulReply_def
        length_templates js_Cons_not_Nil del: JSON_stringify.simps)

theorem ids_unique_witness:
  "distinct (map v_id ([] :: upload list)) \<and> distinct (map j_id [old_letter])
   \<and> distinct_draws (js ''voice'') (concat (map voice_draws busy_session)) (map v_id [])
   \<and> distinct_draws (js ''j'') (concat (map journal_draws busy_session)) (map j_id [old_letter])
   \<and> distinct_draws (js ''m'') (concat (map chat_draws busy_session)) []
   \<and> unique_ids (run (\<lambda>u. u) busy_session (mount Map.empty True [] [old_letter] 0))
   \<and> map kept_digits (concat (map journal_draws busy_session)) = [js ''4fzyo82'', js ''9k2'']
   \<and> map v_id (voiceUploads (run (\<lambda>u. u) busy_session (mount Map.empty True [] [old_letter] 0)))
       = [js ''voice_4fzyo82'', js ''voice_9k2'']
   \<and> map j_id (journalEntries (run (\<lambda>u. u) busy_session (mount Map.empty True [] [old_letter] 0)))
       = [js ''j_9k2'', js ''j_4fzyo82'', js ''j_0k3x9ab'']
   \<and> length (chatMessages (run (\<lambda>u. u) busy_session (mount Map.empty True [] [old_letter] 0)))
       = 3"
proof -
  have v: "concat (map voice_draws busy_session) = [js ''0.4fzyo82mvyr'', js ''0.9k2'']"
    and j: "concat (map journal_draws busy_session) = [js ''0.4fzyo82mvyr'', js ''0.9k2'']"
    and m: "concat (map chat_draws busy_session) = [js ''0.4fzyo82mvyr'', js ''0.9k2'']"
    by (simp_all add: busy_session_def clip_def clip2_def)
  have ne: "js ''4fzyo82'' \<noteq> js ''9k2''" by (simp add: js_def)
  have h1: "distinct_draws (js ''voice'') (concat (map voice_draws busy_session)) (map v_id [])"
    and h3: "distinct_draws (js ''m'') (concat (map chat_draws busy_session)) []"
    unfolding v m by (simp_all add: distinct_draws_def kept_1 kept_2 ne)
  have h2: "distinct_draws (js ''j'') (concat (map journal_draws busy_session))
      (map j_id [old_letter])"
    unfolding j
    by (simp add: distinct_draws_def kept_1 kept_2 ne uid_of_kept old_letter_def)
       (simp add: js_def)
  have k: "map kept_digits (concat (map journal_draws busy_session)) = [js ''4fzyo82'', js ''9k2'']"
    unfolding j by (simp add: kept_1 kept_2)
  from h1 h2 h3 ids_unique_when_kept_digits_differ
    [of "[]" "[old_letter]" busy_session "\<lambda>u. u" Map.empty True 0]
  have "unique_ids (run (\<lambda>u. u) busy_session (mount Map.empty True [] [old_letter] 0))"
    by simp
  with h1 h2 h3 k busy_session_ids show ?thesis by simp
qed

text \<open>
  \<open>uid\<close> keeps seven digits of the draw and checks nothing: two letters saved with draws
  that agree on these digits get the same id.
\<close>

theorem uid_collision_counterexample:
  "map j_id (journalEntries two_letters) = [js ''j_4fzyo82'', js ''j_4fzyo82'']
   \<and> \<not> unique_ids two_letters"
  by (simp add: two_letters_def unique_ids_def save_def addJournalEntry_def setJournalEntries_def
        persistJournal_def mount_def persistVoiceUploads_def trim_letters uid_j1 uid_j2)
     (simp add: js_def)

end
